theory Spec2Isabelle
  imports Complex_Main
begin

section \<open>Progressive multiframe supersampling (multiframe.ts)\<close>

text \<open>
  A shallow embedding of the class \<open>Multiframe\<close> of \<open>src/multiframe.ts\<close>. JavaScript
  numbers that hold counts (\<open>sampleId\<close>, \<open>numSamples\<close>, widths, heights, blend modes) are
  \<open>nat\<close>; numbers that hold coordinates, matrix entries and shader uniforms are idealised
  as \<open>real\<close>. Methods mutate the object and may throw, so a method is a function from the
  object's state to an outcome (an error or the returned value) and the state it leaves.
\<close>

subsection \<open>Vectors and the sample sequence\<close>

datatype vec2 = Vec2 (vec_x: real) (vec_y: real)

text \<open>
  Modelled from the spec: \<open>pc.Vec2.length()\<close> belongs to the engine and is not part of the
  source file; the spec calls it the Euclidean distance from the origin.
\<close>

definition vec_length :: "vec2 \<Rightarrow> real" where
  "vec_length v = sqrt (vec_x v * vec_x v + vec_y v * vec_y v)"

text \<open>
  The random source: \<open>rnd k\<close> is the value of the \<open>k\<close>-th call of \<open>Math.random()\<close>. The
  loops thread the number of calls made so far, so that the first coordinate of a sample
  draws before the second, as the argument order of the constructor call does.
\<close>

type_synonym random_source = "nat \<Rightarrow> real"

text \<open>The inner loop \<open>for (let y = 0; y < numSamples; ++y)\<close>, entered at \<open>y\<close>.\<close>

function loop_y :: "random_source \<Rightarrow> nat \<Rightarrow> nat \<Rightarrow> nat \<Rightarrow> nat \<times> vec2 list \<Rightarrow> nat \<times> vec2 list" where
  "loop_y rnd numSamples x y (k, samples) =
     (if y < numSamples then
        loop_y rnd numSamples x (y + 1)
          (k + 2,
           samples @
             [Vec2 ((real x + rnd k) / real numSamples * 2.0 - 1.0)
                   ((real y + rnd (k + 1)) / real numSamples * 2.0 - 1.0)])
      else (k, samples))"
  by pat_completeness auto
termination
  by (relation "measure (\<lambda>(rnd, numSamples, x, y, st). numSamples - y)") auto

text \<open>The outer loop \<open>for (let x = 0; x < numSamples; ++x)\<close>, entered at \<open>x\<close>.\<close>

function loop_x :: "random_source \<Rightarrow> nat \<Rightarrow> nat \<Rightarrow> nat \<times> vec2 list \<Rightarrow> nat \<times> vec2 list" where
  "loop_x rnd numSamples x st =
     (if x < numSamples then
        loop_x rnd numSamples (x + 1) (loop_y rnd numSamples x 0 st)
      else st)"
  by pat_completeness auto
termination
  by (relation "measure (\<lambda>(rnd, numSamples, x, st). numSamples - x)") auto

text \<open>The comparator handed to \<open>samples.sort\<close>: closest sample first.\<close>

definition compareFn :: "vec2 \<Rightarrow> vec2 \<Rightarrow> int" where
  "compareFn a b =
     (let aL = vec_length a; bL = vec_length b
      in if aL < bL then - 1 else (if bL < aL then 1 else 0))"

text \<open>
  \<open>Array.prototype.sort\<close> is the language's own: a stable sort that orders by the
  comparator. It is modelled by a stable insertion sort driven by the comparator's sign.
\<close>

fun insert_cmp :: "('a \<Rightarrow> 'a \<Rightarrow> int) \<Rightarrow> 'a \<Rightarrow> 'a list \<Rightarrow> 'a list" where
  "insert_cmp cmp a [] = [a]"
| "insert_cmp cmp a (b # bs) =
     (if cmp a b \<le> 0 then a # b # bs else b # insert_cmp cmp a bs)"

definition array_sort :: "('a \<Rightarrow> 'a \<Rightarrow> int) \<Rightarrow> 'a list \<Rightarrow> 'a list" where
  "array_sort cmp xs = foldr (insert_cmp cmp) xs []"

text \<open>The value of \<open>this.samples\<close> when the constructor has run: generated, then sorted.\<close>

definition generate_samples :: "random_source \<Rightarrow> nat \<Rightarrow> vec2 list" where
  "generate_samples rnd numSamples =
     array_sort compareFn (snd (loop_x rnd numSamples 0 (0, [])))"

definition in_unit_square :: "vec2 \<Rightarrow> bool" where
  "in_unit_square p \<longleftrightarrow>
     - 1 \<le> vec_x p \<and> vec_x p \<le> 1 \<and> - 1 \<le> vec_y p \<and> vec_y p \<le> 1"

subsection \<open>The engine's objects\<close>

text \<open>
  Textures, render targets, the graphics device and the camera component are the engine's
  (\<open>playcanvas\<close>); the source file only uses them. Modelled from the spec: the device
  offers texture and render-target allocation (width, height, pixel format, depth
  disabled), a full-screen-quad draw parameterised by target, shader inputs and a
  blend-enabled flag, and blend-state get/set (four blend factors plus a constant blend
  colour); the camera offers its projection-matrix entries, the dirty flags of its cached
  matrices and the render target of the scene. Every call that reaches the device or the
  GL context is appended to the device's list of calls, so that what a method drew, and
  into which target, can be read off.
\<close>

datatype pixelformat = PIXELFORMAT_RGBA16F | PIXELFORMAT_RGBA32F | PIXELFORMAT_R8_G8_B8_A8

record texture =
  tex_id :: nat
  tex_width :: nat
  tex_height :: nat
  tex_format :: "pixelformat option"
  tex_mipmaps :: bool

record render_target =
  rt_id :: nat
  colorBuffer :: texture
  depth :: bool

datatype glenum = GL_CONSTANT_ALPHA | GL_ONE_MINUS_CONSTANT_ALPHA | GL_ONE | GL_ZERO

text \<open>
  \<open>DrawQuad target source multiplier power useBlend\<close> is one call of
  \<open>pc.drawQuadWithShader\<close>: the target (\<open>None\<close> is the back buffer), the values of the
  three shader uniforms when the quad is drawn, and the blend-enabled flag.
\<close>

datatype gpu_call =
    TextureCreate texture
  | RenderTargetCreate render_target
  | TextureDestroy texture
  | RenderTargetDestroy render_target
  | BlendFuncSeparate glenum glenum glenum glenum
  | BlendColor real real real real
  | SetBlendFunctionSeparate nat nat nat nat
  | DrawQuad "render_target option" "texture option" real real bool

record graphics_device =
  dev_width :: nat
  dev_height :: nat
  extTextureHalfFloat :: bool
  textureHalfFloatRenderable :: bool
  extTextureFloat :: bool
  textureFloatRenderable :: bool
  blendSrc :: nat
  blendDst :: nat
  blendSrcAlpha :: nat
  blendDstAlpha :: nat
  scope_texture_multiframeSource :: "texture option"
  scope_multiplier :: real
  scope_power :: real
  scope_globalTextureBias :: real
  next_handle :: nat
  calls :: "gpu_call list"

record camera_component =
  projectionMatrix :: "nat \<Rightarrow> real"
  renderTarget :: "render_target option"
  viewMatDirty :: bool
  viewProjMatDirty :: bool

definition new_Texture ::
  "nat \<Rightarrow> nat \<Rightarrow> pixelformat option \<Rightarrow> bool \<Rightarrow> graphics_device \<Rightarrow> texture \<times> graphics_device" where
  "new_Texture w h fmt mips d =
     (let t = \<lparr>tex_id = next_handle d, tex_width = w, tex_height = h,
                tex_format = fmt, tex_mipmaps = mips\<rparr>
      in (t, d\<lparr>next_handle := next_handle d + 1, calls := calls d @ [TextureCreate t]\<rparr>))"

definition new_RenderTarget ::
  "texture \<Rightarrow> bool \<Rightarrow> graphics_device \<Rightarrow> render_target \<times> graphics_device" where
  "new_RenderTarget buf dp d =
     (let r = \<lparr>rt_id = next_handle d, colorBuffer = buf, depth = dp\<rparr>
      in (r, d\<lparr>next_handle := next_handle d + 1, calls := calls d @ [RenderTargetCreate r]\<rparr>))"

definition texture_destroy :: "texture \<Rightarrow> graphics_device \<Rightarrow> graphics_device" where
  "texture_destroy t d = d\<lparr>calls := calls d @ [TextureDestroy t]\<rparr>"

definition render_target_destroy :: "render_target \<Rightarrow> graphics_device \<Rightarrow> graphics_device" where
  "render_target_destroy r d = d\<lparr>calls := calls d @ [RenderTargetDestroy r]\<rparr>"

definition gl_blendFuncSeparate ::
  "glenum \<Rightarrow> glenum \<Rightarrow> glenum \<Rightarrow> glenum \<Rightarrow> graphics_device \<Rightarrow> graphics_device" where
  "gl_blendFuncSeparate a b c e d = d\<lparr>calls := calls d @ [BlendFuncSeparate a b c e]\<rparr>"

definition gl_blendColor ::
  "real \<Rightarrow> real \<Rightarrow> real \<Rightarrow> real \<Rightarrow> graphics_device \<Rightarrow> graphics_device" where
  "gl_blendColor r g b a d = d\<lparr>calls := calls d @ [BlendColor r g b a]\<rparr>"

definition setBlendFunctionSeparate ::
  "nat \<Rightarrow> nat \<Rightarrow> nat \<Rightarrow> nat \<Rightarrow> graphics_device \<Rightarrow> graphics_device" where
  "setBlendFunctionSeparate a b c e d =
     d\<lparr>blendSrc := a, blendDst := b, blendSrcAlpha := c, blendDstAlpha := e,
       calls := calls d @ [SetBlendFunctionSeparate a b c e]\<rparr>"

definition drawQuadWithShader ::
  "render_target option \<Rightarrow> bool \<Rightarrow> graphics_device \<Rightarrow> graphics_device" where
  "drawQuadWithShader target useBlend d =
     d\<lparr>calls := calls d @
         [DrawQuad target (scope_texture_multiframeSource d) (scope_multiplier d)
            (scope_power d) useBlend]\<rparr>"

definition supportsFloat16 :: "graphics_device \<Rightarrow> bool" where
  "supportsFloat16 d \<longleftrightarrow> extTextureHalfFloat d \<and> textureHalfFloatRenderable d"

definition supportsFloat32 :: "graphics_device \<Rightarrow> bool" where
  "supportsFloat32 d \<longleftrightarrow> extTextureFloat d \<and> textureFloatRenderable d"

definition choosePixelFormat :: "graphics_device \<Rightarrow> pixelformat" where
  "choosePixelFormat d =
     (if supportsFloat16 d then PIXELFORMAT_RGBA16F
      else if supportsFloat32 d then PIXELFORMAT_RGBA32F
      else PIXELFORMAT_R8_G8_B8_A8)"

subsection \<open>The class Multiframe\<close>

text \<open>
  The members \<open>shader\<close> and the four \<open>ScopeId\<close>s are assigned once, in the constructor, and
  never again; they are represented by the scope variables of the device they resolve
  to. \<open>store\<close> is the vector the two render hooks of the constructor share.
\<close>

definition gamma :: real where
  "gamma = 2.2"

record multiframe =
  device :: graphics_device
  camera :: camera_component
  pixelFormat :: pixelformat
  firstTexture :: "texture option"
  firstRenderTarget :: "render_target option"
  accumTexture :: "texture option"
  accumRenderTarget :: "render_target option"
  sampleId :: nat
  samples :: "vec2 list"
  store :: vec2

datatype error = TypeError

type_synonym 'a meth = "multiframe \<Rightarrow> (error + 'a) \<times> multiframe"

text \<open>
  Statement sequencing, \<open>if\<close> without \<open>else\<close>, a mutation of the object, a call on the
  device, and a method call through a member that may be \<open>null\<close> (which throws a
  \<open>TypeError\<close> when it is).
\<close>

definition seq :: "unit meth \<Rightarrow> 'a meth \<Rightarrow> 'a meth" where
  "seq m n s = (case m s of (Inl e, s') \<Rightarrow> (Inl e, s') | (Inr u, s') \<Rightarrow> n s')"

definition if_then :: "(multiframe \<Rightarrow> bool) \<Rightarrow> unit meth \<Rightarrow> unit meth" where
  "if_then c m s = (if c s then m s else (Inr (), s))"

definition mutate :: "(multiframe \<Rightarrow> multiframe) \<Rightarrow> unit meth" where
  "mutate f s = (Inr (), f s)"

definition on_device :: "(graphics_device \<Rightarrow> graphics_device) \<Rightarrow> unit meth" where
  "on_device f s = (Inr (), s\<lparr>device := f (device s)\<rparr>)"

definition invoke ::
  "(multiframe \<Rightarrow> 'r option) \<Rightarrow> ('r \<Rightarrow> graphics_device \<Rightarrow> graphics_device) \<Rightarrow> unit meth" where
  "invoke member f s =
     (case member s of
        None \<Rightarrow> (Inl TypeError, s)
      | Some r \<Rightarrow> (Inr (), s\<lparr>device := f r (device s)\<rparr>))"

text \<open>
  The constructor: the fields as they stand when it returns. The shader it compiles,
  the two render hooks it installs on the camera (given below as methods) and its
  subscription of \<open>destroy\<close> to the device's \<open>destroy\<close> and \<open>devicelost\<close> events leave
  no trace in the fields. Allocation by the engine is taken to succeed.
\<close>

definition new_Multiframe ::
  "graphics_device \<Rightarrow> camera_component \<Rightarrow> nat \<Rightarrow> random_source \<Rightarrow> multiframe" where
  "new_Multiframe dev cam numSamples rnd =
     \<lparr>device = dev, camera = cam, pixelFormat = choosePixelFormat dev,
      firstTexture = None, firstRenderTarget = None,
      accumTexture = None, accumRenderTarget = None,
      sampleId = 0, samples = generate_samples rnd numSamples, store = Vec2 0 0\<rparr>"

text \<open>
  The hook \<open>camera.onPreRender\<close>. \<open>this.samples[this.sampleId]\<close> is \<open>undefined\<close> when the
  index is out of range, and reading \<open>sample.x\<close> then throws, after \<open>store.set\<close> has run
  and before anything else is written. (A division by a zero width or height gives an
  infinity or a NaN in JavaScript and 0 here; nothing below depends on it.)
\<close>

definition onPreRender :: "unit meth" where
  "onPreRender s0 =
     (let sample = (if sampleId s0 < length (samples s0)
                    then Some (samples s0 ! sampleId s0) else None);
          pmat = projectionMatrix (camera s0);
          s1 = s0\<lparr>store := Vec2 (pmat 12) (pmat 13)\<rparr>
      in case sample of
           None \<Rightarrow> (Inl TypeError, s1)
         | Some sample \<Rightarrow>
             (let s2 = s1\<lparr>camera := (camera s1)\<lparr>projectionMatrix :=
                         (projectionMatrix (camera s1))
                           (8 := projectionMatrix (camera s1) 8
                                 + vec_x sample / real (dev_width (device s1)))\<rparr>\<rparr>;
                  s3 = s2\<lparr>camera := (camera s2)\<lparr>projectionMatrix :=
                         (projectionMatrix (camera s2))
                           (9 := projectionMatrix (camera s2) 9
                                 + vec_y sample / real (dev_height (device s2)))\<rparr>\<rparr>;
                  s4 = s3\<lparr>camera := (camera s3)\<lparr>viewMatDirty := True\<rparr>\<rparr>;
                  s5 = s4\<lparr>camera := (camera s4)\<lparr>viewProjMatDirty := True\<rparr>\<rparr>
              in (Inr (), s5\<lparr>device := (device s5)\<lparr>scope_globalTextureBias :=
                                  (if sampleId s5 = 0 then 0.0 else - 5.0)\<rparr>\<rparr>)))"

text \<open>The hook \<open>camera.onPostRender\<close>.\<close>

definition onPostRender :: "unit meth" where
  "onPostRender =
     seq (mutate (\<lambda>s. s\<lparr>camera := (camera s)\<lparr>projectionMatrix :=
                    (projectionMatrix (camera s))(8 := vec_x (store s))\<rparr>\<rparr>))
         (mutate (\<lambda>s. s\<lparr>camera := (camera s)\<lparr>projectionMatrix :=
                    (projectionMatrix (camera s))(9 := vec_y (store s))\<rparr>\<rparr>))"

definition destroy :: "unit meth" where
  "destroy =
     seq (if_then (\<lambda>s. firstTexture s \<noteq> None)
            (seq (invoke firstTexture texture_destroy)
                 (mutate (\<lambda>s. s\<lparr>firstTexture := None\<rparr>))))
    (seq (if_then (\<lambda>s. firstRenderTarget s \<noteq> None)
            (seq (invoke firstRenderTarget render_target_destroy)
                 (mutate (\<lambda>s. s\<lparr>firstRenderTarget := None\<rparr>))))
    (seq (if_then (\<lambda>s. accumRenderTarget s \<noteq> None)
            (seq (invoke accumRenderTarget render_target_destroy)
                 (mutate (\<lambda>s. s\<lparr>accumRenderTarget := None\<rparr>))))
         (if_then (\<lambda>s. accumTexture s \<noteq> None)
            (seq (invoke accumTexture texture_destroy)
                 (mutate (\<lambda>s. s\<lparr>accumTexture := None\<rparr>))))))"

definition moved :: "unit meth" where
  "moved = mutate (\<lambda>s. s\<lparr>sampleId := 0\<rparr>)"

definition create :: "unit meth" where
  "create s0 =
     (let (t1, d1) = new_Texture (dev_width (device s0)) (dev_height (device s0))
                       None False (device s0);
          s1 = s0\<lparr>device := d1, firstTexture := Some t1\<rparr>;
          (r1, d2) = new_RenderTarget t1 False (device s1);
          s2 = s1\<lparr>device := d2, firstRenderTarget := Some r1\<rparr>;
          (t2, d3) = new_Texture (dev_width (device s2)) (dev_height (device s2))
                       (Some (pixelFormat s2)) False (device s2);
          s3 = s2\<lparr>device := d3, accumTexture := Some t2\<rparr>;
          (r2, d4) = new_RenderTarget t2 False (device s3)
      in (Inr (), s3\<lparr>device := d4, accumRenderTarget := Some r2\<rparr>))"

text \<open>The branch \<open>sampleId === 0\<close> of \<open>prepareTexture\<close>: the grabpass goes to both buffers.\<close>

definition store_grabpass :: "texture \<Rightarrow> unit meth" where
  "store_grabpass sourceTex =
     seq (on_device (\<lambda>d. d\<lparr>scope_texture_multiframeSource := Some sourceTex\<rparr>))
    (seq (on_device (\<lambda>d. d\<lparr>scope_multiplier := 1.0\<rparr>))
    (seq (on_device (\<lambda>d. d\<lparr>scope_power := gamma\<rparr>))
    (seq (\<lambda>s. on_device (drawQuadWithShader (accumRenderTarget s) True) s)
    (seq (on_device (\<lambda>d. d\<lparr>scope_power := 1.0\<rparr>))
         (\<lambda>s. on_device (drawQuadWithShader (firstRenderTarget s) True) s)))))"

text \<open>The pass under \<open>// resolve final frame\<close>.\<close>

definition resolve_final_frame :: "unit meth" where
  "resolve_final_frame =
     seq (\<lambda>s. on_device (\<lambda>d. d\<lparr>scope_texture_multiframeSource := accumTexture s\<rparr>) s)
    (seq (on_device (\<lambda>d. d\<lparr>scope_multiplier := 1.0\<rparr>))
    (seq (on_device (\<lambda>d. d\<lparr>scope_power := 1.0 / gamma\<rparr>))
         (\<lambda>s. on_device (drawQuadWithShader (firstRenderTarget s) False) s)))"

text \<open>The \<open>else\<close> branch: blend the grabpass with the accumulation buffer, restore the
  blend state, and resolve the final frame on the last sample.\<close>

definition blend_grabpass :: "texture \<Rightarrow> nat \<Rightarrow> unit meth" where
  "blend_grabpass sourceTex sampleCnt s0 =
     (let blendSrc0 = blendSrc (device s0);
          blendDst0 = blendDst (device s0);
          blendSrcAlpha0 = blendSrcAlpha (device s0);
          blendDstAlpha0 = blendDstAlpha (device s0)
      in
        (seq (on_device (gl_blendFuncSeparate GL_CONSTANT_ALPHA GL_ONE_MINUS_CONSTANT_ALPHA
                           GL_ONE GL_ZERO))
        (seq (\<lambda>s. on_device (gl_blendColor 0 0 0 (1.0 / (real (sampleId s) + 1))) s)
        (seq (on_device (\<lambda>d. d\<lparr>scope_texture_multiframeSource := Some sourceTex\<rparr>))
        (seq (on_device (\<lambda>d. d\<lparr>scope_multiplier := 1.0\<rparr>))
        (seq (on_device (\<lambda>d. d\<lparr>scope_power := gamma\<rparr>))
        (seq (\<lambda>s. on_device (drawQuadWithShader (accumRenderTarget s) True) s)
        (seq (on_device (setBlendFunctionSeparate blendSrc0 blendDst0
                           blendSrcAlpha0 blendDstAlpha0))
             (if_then (\<lambda>s. int (sampleId s) = int sampleCnt - 1)
                resolve_final_frame)))))))) s0)"

text \<open>
  \<open>prepareTexture\<close>, in the order of its statements: the two guards that release and
  allocate the textures, the block that consumes the grabpass, the copy of the multiframe
  buffer to the back buffer, and the count.
\<close>

definition ensure_textures :: "unit meth" where
  "ensure_textures =
     seq (if_then (\<lambda>s. case accumTexture s of
                          None \<Rightarrow> False
                        | Some t \<Rightarrow> tex_width t \<noteq> dev_width (device s)
                                    \<or> tex_height t \<noteq> dev_height (device s))
            destroy)
         (if_then (\<lambda>s. accumTexture s = None) create)"

definition consume_grabpass :: "nat \<Rightarrow> unit meth" where
  "consume_grabpass sampleCnt s0 =
     (case renderTarget (camera s0) of
        None \<Rightarrow> (Inr (), s0)
      | Some rt \<Rightarrow>
          if_then (\<lambda>s. sampleId s < sampleCnt)
            (\<lambda>s. let sourceTex = colorBuffer rt
                  in if sampleId s = 0 then store_grabpass sourceTex s
                     else blend_grabpass sourceTex sampleCnt s) s0)"

definition replace_backbuffer :: "unit meth" where
  "replace_backbuffer =
     seq (\<lambda>s. on_device (\<lambda>d. d\<lparr>scope_texture_multiframeSource := firstTexture s\<rparr>) s)
    (seq (on_device (\<lambda>d. d\<lparr>scope_multiplier := 1.0\<rparr>))
    (seq (on_device (\<lambda>d. d\<lparr>scope_power := 1.0\<rparr>))
         (on_device (drawQuadWithShader None False))))"

definition prepareTexture :: "bool meth" where
  "prepareTexture =
     seq ensure_textures
       (\<lambda>s1. let sampleCnt = length (samples s1) in
          (seq (consume_grabpass sampleCnt)
          (seq replace_backbuffer
          (seq (if_then (\<lambda>s. sampleId s < sampleCnt)
                  (mutate (\<lambda>s. s\<lparr>sampleId := sampleId s + 1\<rparr>)))
               (\<lambda>s. (Inr (sampleId s < sampleCnt), s))))) s1)"

subsection \<open>What a call emits\<close>

text \<open>
  Names for what the methods hand to the device, used to state what they do: the destroy
  calls of the members that are not \<open>null\<close>, the four objects \<open>create\<close> allocates on a
  device and its four allocation calls, the calls of the block that consumes the
  grabpass, and the condition under which \<open>prepareTexture\<close> keeps the textures it has.
\<close>

definition release_calls :: "multiframe \<Rightarrow> gpu_call list" where
  "release_calls s =
     (case firstTexture s of None \<Rightarrow> [] | Some t \<Rightarrow> [TextureDestroy t]) @
     (case firstRenderTarget s of None \<Rightarrow> [] | Some r \<Rightarrow> [RenderTargetDestroy r]) @
     (case accumRenderTarget s of None \<Rightarrow> [] | Some r \<Rightarrow> [RenderTargetDestroy r]) @
     (case accumTexture s of None \<Rightarrow> [] | Some t \<Rightarrow> [TextureDestroy t])"

definition output_texture :: "graphics_device \<Rightarrow> texture" where
  "output_texture d =
     \<lparr>tex_id = next_handle d, tex_width = dev_width d, tex_height = dev_height d,
      tex_format = None, tex_mipmaps = False\<rparr>"

definition output_target :: "graphics_device \<Rightarrow> render_target" where
  "output_target d =
     \<lparr>rt_id = next_handle d + 1, colorBuffer = output_texture d, depth = False\<rparr>"

definition accumulation_texture :: "pixelformat \<Rightarrow> graphics_device \<Rightarrow> texture" where
  "accumulation_texture fmt d =
     \<lparr>tex_id = next_handle d + 2, tex_width = dev_width d, tex_height = dev_height d,
      tex_format = Some fmt, tex_mipmaps = False\<rparr>"

definition accumulation_target :: "pixelformat \<Rightarrow> graphics_device \<Rightarrow> render_target" where
  "accumulation_target fmt d =
     \<lparr>rt_id = next_handle d + 3, colorBuffer = accumulation_texture fmt d, depth = False\<rparr>"

definition create_calls :: "pixelformat \<Rightarrow> graphics_device \<Rightarrow> gpu_call list" where
  "create_calls fmt d =
     [TextureCreate (output_texture d), RenderTargetCreate (output_target d),
      TextureCreate (accumulation_texture fmt d),
      RenderTargetCreate (accumulation_target fmt d)]"

definition textures_fit :: "multiframe \<Rightarrow> bool" where
  "textures_fit s \<longleftrightarrow>
     (case accumTexture s of
        None \<Rightarrow> False
      | Some t \<Rightarrow> tex_width t = dev_width (device s) \<and> tex_height t = dev_height (device s))"

definition grabpass_calls :: "nat \<Rightarrow> multiframe \<Rightarrow> gpu_call list" where
  "grabpass_calls cnt s =
     (case renderTarget (camera s) of
        None \<Rightarrow> []
      | Some rt \<Rightarrow>
          if sampleId s < cnt then
            (if sampleId s = 0 then
               [DrawQuad (accumRenderTarget s) (Some (colorBuffer rt)) 1 gamma True,
                DrawQuad (firstRenderTarget s) (Some (colorBuffer rt)) 1 1 True]
             else
               [BlendFuncSeparate GL_CONSTANT_ALPHA GL_ONE_MINUS_CONSTANT_ALPHA GL_ONE GL_ZERO,
                BlendColor 0 0 0 (1 / (real (sampleId s) + 1)),
                DrawQuad (accumRenderTarget s) (Some (colorBuffer rt)) 1 gamma True,
                SetBlendFunctionSeparate (blendSrc (device s)) (blendDst (device s))
                  (blendSrcAlpha (device s)) (blendDstAlpha (device s))] @
               (if int (sampleId s) = int cnt - 1
                then [DrawQuad (firstRenderTarget s) (accumTexture s) 1 (1 / gamma) False]
                else []))
          else [])"

text \<open>A draw into a render target (not the back buffer), the inverse-gamma resolve pass,
  any draw, and the calls that allocate or release a resource.\<close>

fun writes_target :: "gpu_call \<Rightarrow> bool" where
  "writes_target (DrawQuad (Some r) src m p b) = True"
| "writes_target c = False"

fun is_resolve :: "gpu_call \<Rightarrow> bool" where
  "is_resolve (DrawQuad target src m p b) = (p = 1 / gamma)"
| "is_resolve c = False"

fun is_draw :: "gpu_call \<Rightarrow> bool" where
  "is_draw (DrawQuad target src m p b) = True"
| "is_draw c = False"

fun is_allocation :: "gpu_call \<Rightarrow> bool" where
  "is_allocation (TextureCreate t) = True"
| "is_allocation (RenderTargetCreate r) = True"
| "is_allocation (TextureDestroy t) = True"
| "is_allocation (RenderTargetDestroy r) = True"
| "is_allocation c = False"

subsection \<open>The scalar accumulator\<close>

text \<open>
  Modelled from the spec: the blend itself happens on the GPU. With the factors
  \<open>CONSTANT_ALPHA\<close> and \<open>ONE_MINUS_CONSTANT_ALPHA\<close> the new sample is weighted by the
  constant alpha and the value already in the buffer by one minus it; the spec's
  simulated scalar accumulator is \<open>acc\<^sub>k = acc\<^sub>k\<^sub>-\<^sub>1 * (k-1)/k + sample\<^sub>k * 1/k\<close>, so that
  \<open>acc\<^sub>1 = sample\<^sub>1\<close>.
\<close>

definition blend_weight :: "nat \<Rightarrow> real" where
  "blend_weight sampleIndex = 1.0 / (real sampleIndex + 1)"

fun acc :: "(nat \<Rightarrow> real) \<Rightarrow> nat \<Rightarrow> real" where
  "acc sample 0 = 0"
| "acc sample (Suc j) =
     acc sample j * (real j / real (Suc j)) + sample (Suc j) * (1 / real (Suc j))"

subsection \<open>Concrete states\<close>

text \<open>
  A 200 by 100 device, a camera with an off-centre perspective projection (entry 8, the
  horizontal principal-point term, is \<open>1/4\<close>) that renders the scene into a target of the
  device's size, and the event of the canvas being resized, which is the host's.
\<close>

definition ex_device :: graphics_device where
  "ex_device =
     \<lparr>dev_width = 200, dev_height = 100, extTextureHalfFloat = True,
      textureHalfFloatRenderable = True, extTextureFloat = False,
      textureFloatRenderable = False,
      blendSrc = 1, blendDst = 0, blendSrcAlpha = 1, blendDstAlpha = 0,
      scope_texture_multiframeSource = None, scope_multiplier = 0, scope_power = 0,
      scope_globalTextureBias = 0, next_handle = 0, calls = []\<rparr>"

definition ex_scene_target :: render_target where
  "ex_scene_target =
     \<lparr>rt_id = 1000,
      colorBuffer = \<lparr>tex_id = 1001, tex_width = 200, tex_height = 100,
                     tex_format = None, tex_mipmaps = False\<rparr>,
      depth = True\<rparr>"

definition ex_pmat :: "nat \<Rightarrow> real" where
  "ex_pmat i = [1, 0, 0, 0,  0, 2, 0, 0,  1 / 4, 0, - 1, - 1,  0, 0, - 1 / 5, 0] ! i"

definition ex_camera :: camera_component where
  "ex_camera =
     \<lparr>projectionMatrix = ex_pmat, renderTarget = Some ex_scene_target,
      viewMatDirty = False, viewProjMatDirty = False\<rparr>"

definition ex_multiframe :: "nat \<Rightarrow> multiframe" where
  "ex_multiframe numSamples = new_Multiframe ex_device ex_camera numSamples (\<lambda>k. 1 / 2)"

text \<open>The state after \<open>k\<close> calls of \<open>prepareTexture\<close> on a fresh \<open>ex_multiframe\<close>.\<close>

primrec ex_after_steps :: "nat \<Rightarrow> nat \<Rightarrow> multiframe" where
  "ex_after_steps numSamples 0 = ex_multiframe numSamples"
| "ex_after_steps numSamples (Suc k) = snd (prepareTexture (ex_after_steps numSamples k))"

definition resize_device :: "nat \<Rightarrow> nat \<Rightarrow> multiframe \<Rightarrow> multiframe" where
  "resize_device w h s = s\<lparr>device := (device s)\<lparr>dev_width := w, dev_height := h\<rparr>\<rparr>"

section \<open>Properties of the sample sequence\<close>

declare loop_y.simps [simp del]
declare loop_x.simps [simp del]

lemma loop_y_length:
  "length (snd (loop_y rnd n x y st)) = length (snd st) + (n - y)"
proof (induction rnd n x y st rule: loop_y.induct)
  case (1 rnd numSamples x y k samples)
  show ?case
  proof (cases "y < numSamples")
    case True
    with "1" show ?thesis by (subst loop_y.simps) simp
  next
    case False
    then show ?thesis by (subst loop_y.simps) simp
  qed
qed

lemma loop_x_length:
  "length (snd (loop_x rnd n x st)) = length (snd st) + (n - x) * n"
proof (induction rnd n x st rule: loop_x.induct)
  case (1 rnd numSamples x st)
  show ?case
  proof (cases "x < numSamples")
    case True
    then have "numSamples - x = Suc (numSamples - (x + 1))" by simp
    with True "1" show ?thesis
      by (subst loop_x.simps) (simp add: loop_y_length)
  next
    case False
    then show ?thesis by (subst loop_x.simps) simp
  qed
qed

lemma jitter_coordinate_bounds:
  fixes r :: real
  assumes "0 \<le> r" "r < 1" "i < n"
  shows "- 1 \<le> (real i + r) / real n * 2.0 - 1.0"
    and "(real i + r) / real n * 2.0 - 1.0 \<le> 1"
proof -
  have n: "0 < real n" using assms by simp
  have "real i + 1 \<le> real n" using assms by simp
  then have lt: "real i + r < real n" using assms by linarith
  have ge: "0 \<le> real i + r" using assms by simp
  define q where "q = (real i + r) / real n"
  have q0: "0 \<le> q" unfolding q_def using ge n by simp
  have q1: "q \<le> 1" unfolding q_def using lt n by simp
  from q0 have "- 1 \<le> q * 2.0 - 1.0" by linarith
  then show "- 1 \<le> (real i + r) / real n * 2.0 - 1.0" unfolding q_def .
  from q1 have "q * 2.0 - 1.0 \<le> 1" by linarith
  then show "(real i + r) / real n * 2.0 - 1.0 \<le> 1" unfolding q_def .
qed

lemma loop_y_bounds:
  "\<forall>i. 0 \<le> rnd i \<and> rnd i < 1 \<Longrightarrow> x < n \<Longrightarrow>
   \<forall>p \<in> set (snd st). in_unit_square p \<Longrightarrow>
   \<forall>p \<in> set (snd (loop_y rnd n x y st)). in_unit_square p"
proof (induction rnd n x y st rule: loop_y.induct)
  case (1 rnd numSamples x y k samples)
  show ?case
  proof (cases "y < numSamples")
    case True
    have rk: "0 \<le> rnd k" "rnd k < 1" "0 \<le> rnd (k + 1)" "rnd (k + 1) < 1"
      using "1.prems"(1) by blast+
    have new: "in_unit_square
        (Vec2 ((real x + rnd k) / real numSamples * 2.0 - 1.0)
              ((real y + rnd (k + 1)) / real numSamples * 2.0 - 1.0))"
      unfolding in_unit_square_def vec2.sel
      using jitter_coordinate_bounds[OF rk(1,2) "1.prems"(2)]
            jitter_coordinate_bounds[OF rk(3,4) True]
      by blast
    have "\<forall>p \<in> set (snd (loop_y rnd numSamples x (y + 1)
            (k + 2, samples @
              [Vec2 ((real x + rnd k) / real numSamples * 2.0 - 1.0)
                    ((real y + rnd (k + 1)) / real numSamples * 2.0 - 1.0)]))). in_unit_square p"
      using "1.IH"[OF True "1.prems"(1,2)] "1.prems"(3) new by simp
    with True show ?thesis by (subst loop_y.simps) simp
  next
    case False
    with "1.prems" show ?thesis by (subst loop_y.simps) simp
  qed
qed

lemma loop_x_bounds:
  "\<forall>i. 0 \<le> rnd i \<and> rnd i < 1 \<Longrightarrow>
   \<forall>p \<in> set (snd st). in_unit_square p \<Longrightarrow>
   \<forall>p \<in> set (snd (loop_x rnd n x st)). in_unit_square p"
proof (induction rnd n x st rule: loop_x.induct)
  case (1 rnd numSamples x st)
  show ?case
  proof (cases "x < numSamples")
    case True
    have "\<forall>p \<in> set (snd (loop_y rnd numSamples x 0 st)). in_unit_square p"
      using loop_y_bounds[OF "1.prems"(1) True "1.prems"(2)] .
    from "1.IH"[OF True "1.prems"(1) this] True show ?thesis
      by (subst loop_x.simps) simp
  next
    case False
    with "1.prems" show ?thesis by (subst loop_x.simps) simp
  qed
qed

lemma insert_cmp_length: "length (insert_cmp cmp a bs) = Suc (length bs)"
  by (induction bs) auto

lemma insert_cmp_set: "set (insert_cmp cmp a bs) = insert a (set bs)"
  by (induction bs) auto

lemma array_sort_length: "length (array_sort cmp xs) = length xs"
  unfolding array_sort_def by (induction xs) (auto simp: insert_cmp_length)

lemma array_sort_set: "set (array_sort cmp xs) = set xs"
  unfolding array_sort_def by (induction xs) (auto simp: insert_cmp_set)

lemma compareFn_le: "compareFn a b \<le> 0 \<longleftrightarrow> vec_length a \<le> vec_length b"
  by (auto simp: compareFn_def Let_def)

lemma insert_compareFn_sorted:
  "sorted (map vec_length bs) \<Longrightarrow> sorted (map vec_length (insert_cmp compareFn a bs))"
proof (induction bs)
  case Nil
  then show ?case by simp
next
  case (Cons b bs)
  show ?case
  proof (cases "compareFn a b \<le> 0")
    case True
    then have "vec_length a \<le> vec_length b" by (simp add: compareFn_le)
    with Cons.prems True show ?thesis by auto
  next
    case False
    then have "vec_length b \<le> vec_length a" by (simp add: compareFn_le)
    with Cons False show ?thesis by (auto simp: insert_cmp_set)
  qed
qed

lemma array_sort_sorted: "sorted (map vec_length (array_sort compareFn xs))"
  unfolding array_sort_def by (induction xs) (auto simp: insert_compareFn_sorted)

lemma generate_samples_length: "length (generate_samples rnd n) = n * n"
  by (simp add: generate_samples_def array_sort_length loop_x_length)

text \<open>
  C5. For every grid size \<open>N\<close> and every outcome of the random source (each draw in
  \<open>[0, 1)\<close>), the generated sample list has exactly \<open>N\<^sup>2\<close> offsets, each coordinate of
  every offset lies in \<open>[-1, 1]\<close>, and the list is sorted by non-decreasing Euclidean
  distance from the origin.
\<close>

theorem sample_sequence_generation:
  assumes "1 \<le> N" and "\<forall>i. 0 \<le> rnd i \<and> rnd i < 1"
  shows "length (generate_samples rnd N) = N\<^sup>2
       \<and> (\<forall>p \<in> set (generate_samples rnd N).
             - 1 \<le> vec_x p \<and> vec_x p \<le> 1 \<and> - 1 \<le> vec_y p \<and> vec_y p \<le> 1)
       \<and> sorted (map vec_length (generate_samples rnd N))"
proof -
  have len: "length (generate_samples rnd N) = N\<^sup>2"
    by (simp add: generate_samples_length power2_eq_square)
  have "\<forall>p \<in> set (snd (loop_x rnd N 0 (0, []))). in_unit_square p"
    using loop_x_bounds[OF assms(2), of "(0, [])" N 0] by simp
  then have box: "\<forall>p \<in> set (generate_samples rnd N).
      - 1 \<le> vec_x p \<and> vec_x p \<le> 1 \<and> - 1 \<le> vec_y p \<and> vec_y p \<le> 1"
    by (simp add: generate_samples_def array_sort_set in_unit_square_def)
  have "sorted (map vec_length (generate_samples rnd N))"
    by (simp add: generate_samples_def array_sort_sorted)
  with len box show ?thesis by blast
qed

theorem sample_sequence_generation_witness:
  "1 \<le> (2::nat) \<and> (\<forall>i. (0::real) \<le> 1 / 2 \<and> (1::real) / 2 < 1)
   \<and> length (generate_samples (\<lambda>i. 1 / 2) 2) = 2\<^sup>2
   \<and> sorted (map vec_length (generate_samples (\<lambda>i. 1 / 2) 2))"
  using sample_sequence_generation[of 2 "\<lambda>i. 1 / 2"] by simp

section \<open>What the methods do\<close>

lemmas meth_defs = seq_def if_then_def mutate_def on_device_def invoke_def

lemma destroy_run:
  "destroy s = (Inr (), s\<lparr>device := (device s)\<lparr>calls := calls (device s) @ release_calls s\<rparr>,
      firstTexture := None, firstRenderTarget := None, accumRenderTarget := None,
      accumTexture := None\<rparr>)"
  by (cases "firstTexture s"; cases "firstRenderTarget s"; cases "accumRenderTarget s";
      cases "accumTexture s";
      simp add: destroy_def meth_defs release_calls_def texture_destroy_def render_target_destroy_def;
      (rule multiframe.equality; simp)?)

lemma create_run:
  "create s = (Inr (), s\<lparr>device := (device s)\<lparr>next_handle := next_handle (device s) + 4,
        calls := calls (device s) @ create_calls (pixelFormat s) (device s)\<rparr>,
      firstTexture := Some (output_texture (device s)),
      firstRenderTarget := Some (output_target (device s)),
      accumTexture := Some (accumulation_texture (pixelFormat s) (device s)),
      accumRenderTarget := Some (accumulation_target (pixelFormat s) (device s))\<rparr>)"
  by (simp add: create_def new_Texture_def new_RenderTarget_def Let_def create_calls_def
      output_texture_def output_target_def accumulation_texture_def accumulation_target_def)

lemma ensure_textures_fit:
  "textures_fit s \<Longrightarrow> ensure_textures s = (Inr (), s)"
  by (cases "accumTexture s") (simp_all add: textures_fit_def ensure_textures_def seq_def if_then_def)

lemma ensure_textures_missing:
  "accumTexture s = None \<Longrightarrow> ensure_textures s = create s"
  by (simp add: ensure_textures_def seq_def if_then_def)

lemma ensure_textures_resized:
  assumes "accumTexture s = Some t"
    and "tex_width t \<noteq> dev_width (device s) \<or> tex_height t \<noteq> dev_height (device s)"
  shows "ensure_textures s =
     (Inr (), s\<lparr>device := (device s)\<lparr>next_handle := next_handle (device s) + 4,
        calls := calls (device s) @ release_calls s @ create_calls (pixelFormat s) (device s)\<rparr>,
      firstTexture := Some (output_texture (device s)),
      firstRenderTarget := Some (output_target (device s)),
      accumTexture := Some (accumulation_texture (pixelFormat s) (device s)),
      accumRenderTarget := Some (accumulation_target (pixelFormat s) (device s))\<rparr>)"
proof -
  have "ensure_textures s = create (snd (destroy s))"
    using assms by (simp add: ensure_textures_def seq_def if_then_def destroy_run)
  then show ?thesis
    by (simp add: destroy_run create_run create_calls_def output_texture_def output_target_def
        accumulation_texture_def accumulation_target_def)
qed

lemma store_grabpass_run:
  "store_grabpass tex s =
     (Inr (), s\<lparr>device := (device s)\<lparr>scope_texture_multiframeSource := Some tex,
        scope_multiplier := 1, scope_power := 1,
        calls := calls (device s) @
          [DrawQuad (accumRenderTarget s) (Some tex) 1 gamma True,
           DrawQuad (firstRenderTarget s) (Some tex) 1 1 True]\<rparr>\<rparr>)"
  by (simp add: store_grabpass_def meth_defs drawQuadWithShader_def)

lemma resolve_final_frame_run:
  "resolve_final_frame s =
     (Inr (), s\<lparr>device := (device s)\<lparr>scope_texture_multiframeSource := accumTexture s,
        scope_multiplier := 1, scope_power := 1 / gamma,
        calls := calls (device s) @
          [DrawQuad (firstRenderTarget s) (accumTexture s) 1 (1 / gamma) False]\<rparr>\<rparr>)"
  by (simp add: resolve_final_frame_def meth_defs drawQuadWithShader_def)

lemma blend_grabpass_run:
  "blend_grabpass tex cnt s =
     (Inr (), s\<lparr>device := (device s)\<lparr>
        scope_texture_multiframeSource :=
          (if int (sampleId s) = int cnt - 1 then accumTexture s else Some tex),
        scope_multiplier := 1,
        scope_power := (if int (sampleId s) = int cnt - 1 then 1 / gamma else gamma),
        calls := calls (device s) @
          [BlendFuncSeparate GL_CONSTANT_ALPHA GL_ONE_MINUS_CONSTANT_ALPHA GL_ONE GL_ZERO,
           BlendColor 0 0 0 (1 / (real (sampleId s) + 1)),
           DrawQuad (accumRenderTarget s) (Some tex) 1 gamma True,
           SetBlendFunctionSeparate (blendSrc (device s)) (blendDst (device s))
             (blendSrcAlpha (device s)) (blendDstAlpha (device s))] @
          (if int (sampleId s) = int cnt - 1
           then [DrawQuad (firstRenderTarget s) (accumTexture s) 1 (1 / gamma) False]
           else [])\<rparr>\<rparr>)"
  by (simp add: blend_grabpass_def seq_def if_then_def on_device_def Let_def
      resolve_final_frame_run gl_blendFuncSeparate_def gl_blendColor_def
      setBlendFunctionSeparate_def drawQuadWithShader_def)

lemma replace_backbuffer_run:
  "replace_backbuffer s =
     (Inr (), s\<lparr>device := (device s)\<lparr>scope_texture_multiframeSource := firstTexture s,
        scope_multiplier := 1, scope_power := 1,
        calls := calls (device s) @ [DrawQuad None (firstTexture s) 1 1 False]\<rparr>\<rparr>)"
  by (simp add: replace_backbuffer_def meth_defs drawQuadWithShader_def)

lemma consume_grabpass_run:
  "\<exists>d. consume_grabpass cnt s = (Inr (), s\<lparr>device := d\<rparr>)
     \<and> calls d = calls (device s) @ grabpass_calls cnt s
     \<and> blendSrc d = blendSrc (device s) \<and> blendDst d = blendDst (device s)
     \<and> blendSrcAlpha d = blendSrcAlpha (device s)
     \<and> blendDstAlpha d = blendDstAlpha (device s)
     \<and> dev_width d = dev_width (device s) \<and> dev_height d = dev_height (device s)"
proof (cases "renderTarget (camera s)")
  case None
  then have "consume_grabpass cnt s = (Inr (), s)"
    by (simp add: consume_grabpass_def)
  with None show ?thesis
    by (intro exI[of _ "device s"]) (simp add: grabpass_calls_def)
next
  case (Some rt)
  show ?thesis
  proof (cases "sampleId s < cnt")
    case False
    with Some have "consume_grabpass cnt s = (Inr (), s)"
      by (simp add: consume_grabpass_def if_then_def)
    with Some False show ?thesis
      by (intro exI[of _ "device s"]) (simp add: grabpass_calls_def)
  next
    case True
    show ?thesis
    proof (cases "sampleId s = 0")
      case True
      let ?D = "device (snd (store_grabpass (colorBuffer rt) s))"
      have "consume_grabpass cnt s = (Inr (), s\<lparr>device := ?D\<rparr>)"
        using Some \<open>sampleId s < cnt\<close> True
        by (simp add: consume_grabpass_def if_then_def store_grabpass_run Let_def)
      then show ?thesis
        using Some \<open>sampleId s < cnt\<close> True
        by (intro exI[of _ ?D]) (simp add: store_grabpass_run grabpass_calls_def)
    next
      case False
      let ?D = "device (snd (blend_grabpass (colorBuffer rt) cnt s))"
      have "consume_grabpass cnt s = (Inr (), s\<lparr>device := ?D\<rparr>)"
        using Some \<open>sampleId s < cnt\<close> False
        by (simp add: consume_grabpass_def if_then_def blend_grabpass_run Let_def)
      then show ?thesis
        using Some \<open>sampleId s < cnt\<close> False
        by (intro exI[of _ ?D]) (simp add: blend_grabpass_run grabpass_calls_def)
    qed
  qed
qed

lemma prepareTexture_run:
  assumes "ensure_textures s = (Inr (), s1)"
  shows "\<exists>d. prepareTexture s =
        (Inr (sampleId s1 + 1 < length (samples s1)),
         s1\<lparr>device := d,
            sampleId := (if sampleId s1 < length (samples s1)
                         then sampleId s1 + 1 else sampleId s1)\<rparr>)
     \<and> calls d = calls (device s1) @ grabpass_calls (length (samples s1)) s1
                  @ [DrawQuad None (firstTexture s1) 1 1 False]
     \<and> blendSrc d = blendSrc (device s1) \<and> blendDst d = blendDst (device s1)
     \<and> blendSrcAlpha d = blendSrcAlpha (device s1)
     \<and> blendDstAlpha d = blendDstAlpha (device s1)
     \<and> dev_width d = dev_width (device s1) \<and> dev_height d = dev_height (device s1)"
proof -
  obtain d where d: "consume_grabpass (length (samples s1)) s1 = (Inr (), s1\<lparr>device := d\<rparr>)"
    and dc: "calls d = calls (device s1) @ grabpass_calls (length (samples s1)) s1"
    and db: "blendSrc d = blendSrc (device s1)" "blendDst d = blendDst (device s1)"
      "blendSrcAlpha d = blendSrcAlpha (device s1)" "blendDstAlpha d = blendDstAlpha (device s1)"
      "dev_width d = dev_width (device s1)" "dev_height d = dev_height (device s1)"
    using consume_grabpass_run[of "length (samples s1)" s1] by blast
  let ?d' = "d\<lparr>scope_texture_multiframeSource := firstTexture s1,
        scope_multiplier := 1, scope_power := 1,
        calls := calls d @ [DrawQuad None (firstTexture s1) 1 1 False]\<rparr>"
  have "prepareTexture s =
        (Inr (sampleId s1 + 1 < length (samples s1)),
         s1\<lparr>device := ?d',
            sampleId := (if sampleId s1 < length (samples s1)
                         then sampleId s1 + 1 else sampleId s1)\<rparr>)"
    using assms d
    by (simp add: prepareTexture_def seq_def[of ensure_textures]
        seq_def[of "consume_grabpass _"] seq_def[of replace_backbuffer] seq_def[of "if_then _ _"]
        replace_backbuffer_run if_then_def mutate_def Let_def)
  then show ?thesis using dc db by (intro exI[of _ ?d']) simp
qed

lemma release_calls_allocation: "\<forall>c \<in> set (release_calls s). is_allocation c"
  by (auto simp: release_calls_def split: option.splits)

lemma create_calls_allocation: "\<forall>c \<in> set (create_calls fmt d). is_allocation c"
  by (simp add: create_calls_def)

lemma ensure_textures_run:
  "\<exists>s1 pre. ensure_textures s = (Inr (), s1)
     \<and> sampleId s1 = sampleId s \<and> samples s1 = samples s \<and> camera s1 = camera s
     \<and> calls (device s1) = calls (device s) @ pre \<and> (\<forall>c \<in> set pre. is_allocation c)
     \<and> blendSrc (device s1) = blendSrc (device s)
     \<and> blendDst (device s1) = blendDst (device s)
     \<and> blendSrcAlpha (device s1) = blendSrcAlpha (device s)
     \<and> blendDstAlpha (device s1) = blendDstAlpha (device s)
     \<and> dev_width (device s1) = dev_width (device s)
     \<and> dev_height (device s1) = dev_height (device s)"
proof (cases "accumTexture s")
  case None
  let ?s1 = "snd (create s)"
  have "ensure_textures s = (Inr (), ?s1)"
    using None by (simp add: ensure_textures_missing create_run)
  then show ?thesis
    by (intro exI[of _ ?s1] exI[of _ "create_calls (pixelFormat s) (device s)"])
       (simp add: create_run create_calls_allocation)
next
  case (Some t)
  show ?thesis
  proof (cases "tex_width t \<noteq> dev_width (device s) \<or> tex_height t \<noteq> dev_height (device s)")
    case True
    note run = ensure_textures_resized[OF Some True]
    show ?thesis
      unfolding run
      by (intro exI[of _ "snd (ensure_textures s)"]
          exI[of _ "release_calls s @ create_calls (pixelFormat s) (device s)"])
         (simp add: run create_calls_allocation release_calls_allocation ball_Un)
  next
    case False
    with Some have "textures_fit s" by (simp add: textures_fit_def)
    then have "ensure_textures s = (Inr (), s)" by (rule ensure_textures_fit)
    then show ?thesis by (intro exI[of _ s] exI[of _ "[]"]) simp
  qed
qed

lemma prepareTexture_summary:
  "\<exists>s1 pre d. ensure_textures s = (Inr (), s1)
     \<and> prepareTexture s =
         (Inr (sampleId s + 1 < length (samples s)),
          s1\<lparr>device := d,
             sampleId := (if sampleId s < length (samples s)
                          then sampleId s + 1 else sampleId s)\<rparr>)
     \<and> sampleId s1 = sampleId s \<and> samples s1 = samples s \<and> camera s1 = camera s
     \<and> (\<forall>c \<in> set pre. is_allocation c)
     \<and> calls d = calls (device s) @ pre @ grabpass_calls (length (samples s)) s1
                  @ [DrawQuad None (firstTexture s1) 1 1 False]
     \<and> blendSrc (device s1) = blendSrc (device s)
     \<and> blendDst (device s1) = blendDst (device s)
     \<and> blendSrcAlpha (device s1) = blendSrcAlpha (device s)
     \<and> blendDstAlpha (device s1) = blendDstAlpha (device s)
     \<and> blendSrc d = blendSrc (device s) \<and> blendDst d = blendDst (device s)
     \<and> blendSrcAlpha d = blendSrcAlpha (device s)
     \<and> blendDstAlpha d = blendDstAlpha (device s)
     \<and> dev_width d = dev_width (device s) \<and> dev_height d = dev_height (device s)"
proof -
  obtain s1 pre where e: "ensure_textures s = (Inr (), s1)"
    and f: "sampleId s1 = sampleId s" "samples s1 = samples s" "camera s1 = camera s"
      "calls (device s1) = calls (device s) @ pre" "\<forall>c \<in> set pre. is_allocation c"
      "blendSrc (device s1) = blendSrc (device s)"
      "blendDst (device s1) = blendDst (device s)"
      "blendSrcAlpha (device s1) = blendSrcAlpha (device s)"
      "blendDstAlpha (device s1) = blendDstAlpha (device s)"
      "dev_width (device s1) = dev_width (device s)"
      "dev_height (device s1) = dev_height (device s)"
    using ensure_textures_run[of s] by blast
  obtain d where p: "prepareTexture s =
        (Inr (sampleId s1 + 1 < length (samples s1)),
         s1\<lparr>device := d,
            sampleId := (if sampleId s1 < length (samples s1)
                         then sampleId s1 + 1 else sampleId s1)\<rparr>)"
    and g: "calls d = calls (device s1) @ grabpass_calls (length (samples s1)) s1
                  @ [DrawQuad None (firstTexture s1) 1 1 False]"
      "blendSrc d = blendSrc (device s1)" "blendDst d = blendDst (device s1)"
      "blendSrcAlpha d = blendSrcAlpha (device s1)"
      "blendDstAlpha d = blendDstAlpha (device s1)"
      "dev_width d = dev_width (device s1)" "dev_height d = dev_height (device s1)"
    using prepareTexture_run[OF e] by blast
  show ?thesis
    using e p f g by (intro exI[of _ s1] exI[of _ pre] exI[of _ d]) simp
qed

lemmas run_defs =
  prepareTexture_def ensure_textures_def consume_grabpass_def replace_backbuffer_def
  store_grabpass_def blend_grabpass_def resolve_final_frame_def destroy_def create_def
  moved_def seq_def if_then_def mutate_def on_device_def invoke_def
  new_Texture_def new_RenderTarget_def texture_destroy_def render_target_destroy_def
  gl_blendFuncSeparate_def gl_blendColor_def setBlendFunctionSeparate_def
  drawQuadWithShader_def Let_def

lemmas ex_defs =
  ex_multiframe_def new_Multiframe_def ex_device_def ex_camera_def ex_scene_target_def
  resize_device_def choosePixelFormat_def supportsFloat16_def supportsFloat32_def
  generate_samples_length

lemma allocation_is_no_draw:
  "is_allocation c \<Longrightarrow> \<not> writes_target c \<and> \<not> is_resolve c"
  by (cases c) simp_all

lemma converged_step:
  assumes "sampleId s = length (samples s)" and "accumTexture s = Some t"
    and "tex_width t = dev_width (device s)" and "tex_height t = dev_height (device s)"
  shows "\<exists>s'. prepareTexture s = (Inr False, s')
     \<and> sampleId s' = sampleId s \<and> samples s' = samples s
     \<and> firstTexture s' = firstTexture s \<and> firstRenderTarget s' = firstRenderTarget s
     \<and> accumTexture s' = accumTexture s \<and> accumRenderTarget s' = accumRenderTarget s
     \<and> dev_width (device s') = dev_width (device s)
     \<and> dev_height (device s') = dev_height (device s)
     \<and> calls (device s') = calls (device s) @ [DrawQuad None (firstTexture s) 1 1 False]"
proof -
  have "textures_fit s" using assms by (simp add: textures_fit_def)
  then have e: "ensure_textures s = (Inr (), s)" by (rule ensure_textures_fit)
  obtain d where p: "prepareTexture s =
        (Inr (sampleId s + 1 < length (samples s)),
         s\<lparr>device := d,
            sampleId := (if sampleId s < length (samples s)
                         then sampleId s + 1 else sampleId s)\<rparr>)"
    and g: "calls d = calls (device s) @ grabpass_calls (length (samples s)) s
                  @ [DrawQuad None (firstTexture s) 1 1 False]"
      "dev_width d = dev_width (device s)" "dev_height d = dev_height (device s)"
    using prepareTexture_run[OF e] by blast
  have n: "grabpass_calls (length (samples s)) s = []"
    using assms(1) by (simp add: grabpass_calls_def split: option.splits)
  show ?thesis
    using assms(1) by (simp add: p g n)
qed

lemma gamma_not_resolve: "gamma \<noteq> 1 / gamma" "(1::real) \<noteq> 1 / gamma"
  by (simp_all add: gamma_def)

lemma acc_mean: "acc sample (Suc j) = (\<Sum>i = 1..Suc j. sample i) / real (Suc j)"
proof (induction j)
  case 0
  show ?case by simp
next
  case (Suc j)
  define S where "S = (\<Sum>i = 1..Suc j. sample i)"
  define n where "n = real (Suc j)"
  define m where "m = real (Suc (Suc j))"
  have n0: "n \<noteq> 0" by (simp add: n_def)
  have "acc sample (Suc (Suc j)) = acc sample (Suc j) * (n / m) + sample (Suc (Suc j)) * (1 / m)"
    by (simp add: n_def m_def)
  also have "acc sample (Suc j) = S / n"
    using Suc.IH by (simp add: S_def n_def)
  also have "S / n * (n / m) = S / m"
    using n0 by simp
  also have "S / m + sample (Suc (Suc j)) * (1 / m) = (S + sample (Suc (Suc j))) / m"
    by (simp add: add_divide_distrib)
  also have "S + sample (Suc (Suc j)) = (\<Sum>i = 1..Suc (Suc j). sample i)"
    by (simp add: S_def)
  finally show ?case by (simp add: m_def)
qed

lemma blend_weight_step:
  "1 \<le> k \<Longrightarrow> blend_weight (k - 1) = 1 / real k \<and> 1 - blend_weight (k - 1) = real (k - 1) / real k"
  by (cases k) (simp_all add: blend_weight_def field_simps)

lemma blend_step_calls:
  assumes "renderTarget (camera s) = Some rt" and "0 < sampleId s"
    and "sampleId s < length (samples s)"
  shows "\<exists>b s' pre post. prepareTexture s = (Inr b, s')
     \<and> blendSrc (device s') = blendSrc (device s) \<and> blendDst (device s') = blendDst (device s)
     \<and> blendSrcAlpha (device s') = blendSrcAlpha (device s)
     \<and> blendDstAlpha (device s') = blendDstAlpha (device s)
     \<and> (\<forall>c \<in> set pre. is_allocation c)
     \<and> (\<forall>c \<in> set post. is_draw c)
     \<and> calls (device s') = calls (device s) @ pre @
          [BlendFuncSeparate GL_CONSTANT_ALPHA GL_ONE_MINUS_CONSTANT_ALPHA GL_ONE GL_ZERO,
           BlendColor 0 0 0 (1 / (real (sampleId s) + 1)),
           DrawQuad (accumRenderTarget s') (Some (colorBuffer rt)) 1 gamma True,
           SetBlendFunctionSeparate (blendSrc (device s)) (blendDst (device s))
             (blendSrcAlpha (device s)) (blendDstAlpha (device s))] @ post"
proof -
  obtain s1 pre d where p: "prepareTexture s =
         (Inr (sampleId s + 1 < length (samples s)),
          s1\<lparr>device := d,
             sampleId := (if sampleId s < length (samples s)
                          then sampleId s + 1 else sampleId s)\<rparr>)"
    and f: "sampleId s1 = sampleId s" "camera s1 = camera s"
      "blendSrc (device s1) = blendSrc (device s)"
      "blendDst (device s1) = blendDst (device s)"
      "blendSrcAlpha (device s1) = blendSrcAlpha (device s)"
      "blendDstAlpha (device s1) = blendDstAlpha (device s)"
    and a: "\<forall>c \<in> set pre. is_allocation c"
    and c: "calls d = calls (device s) @ pre @ grabpass_calls (length (samples s)) s1
                  @ [DrawQuad None (firstTexture s1) 1 1 False]"
    and b: "blendSrc d = blendSrc (device s)" "blendDst d = blendDst (device s)"
      "blendSrcAlpha d = blendSrcAlpha (device s)" "blendDstAlpha d = blendDstAlpha (device s)"
    using prepareTexture_summary[of s] by blast
  let ?s' = "s1\<lparr>device := d,
             sampleId := (if sampleId s < length (samples s)
                          then sampleId s + 1 else sampleId s)\<rparr>"
  let ?post = "(if int (sampleId s) = int (length (samples s)) - 1
                then [DrawQuad (firstRenderTarget s1) (accumTexture s1) 1 (1 / gamma) False]
                else []) @ [DrawQuad None (firstTexture s1) 1 1 False]"
  have 1: "blendSrc (device ?s') = blendSrc (device s)" "blendDst (device ?s') = blendDst (device s)"
    "blendSrcAlpha (device ?s') = blendSrcAlpha (device s)"
    "blendDstAlpha (device ?s') = blendDstAlpha (device s)"
    by (simp_all add: b)
  have 2: "\<forall>c \<in> set ?post. is_draw c" by simp
  have 3: "calls (device ?s') = calls (device s) @ pre @
          [BlendFuncSeparate GL_CONSTANT_ALPHA GL_ONE_MINUS_CONSTANT_ALPHA GL_ONE GL_ZERO,
           BlendColor 0 0 0 (1 / (real (sampleId s) + 1)),
           DrawQuad (accumRenderTarget ?s') (Some (colorBuffer rt)) 1 gamma True,
           SetBlendFunctionSeparate (blendSrc (device s)) (blendDst (device s))
             (blendSrcAlpha (device s)) (blendDstAlpha (device s))] @ ?post"
    using assms by (simp add: c grabpass_calls_def f)
  show ?thesis
    by (rule exI[of _ "sampleId s + 1 < length (samples s)"], rule exI[of _ ?s'],
        rule exI[of _ pre], rule exI[of _ ?post]) (intro conjI p 1 2 3 a)
qed

lemma ex_after_one_step:
  "renderTarget (camera (ex_after_steps 2 1)) = Some ex_scene_target"
  "sampleId (ex_after_steps 2 1) = 1"
  "length (samples (ex_after_steps 2 1)) = 4"
  "blendSrc (device (ex_after_steps 2 1)) = 1"
  "blendDst (device (ex_after_steps 2 1)) = 0"
  "blendSrcAlpha (device (ex_after_steps 2 1)) = 1"
  "blendDstAlpha (device (ex_after_steps 2 1)) = 0"
  by (simp_all add: run_defs ex_defs)

lemma first_step_calls:
  assumes "sampleId s = 0" and "0 < length (samples s)"
  shows "\<exists>s' pre. prepareTexture s = (Inr (1 < length (samples s)), s')
     \<and> sampleId s' = 1 \<and> (\<forall>c \<in> set pre. is_allocation c)
     \<and> calls (device s') = calls (device s) @ pre @
          (case renderTarget (camera s) of
             None \<Rightarrow> []
           | Some rt \<Rightarrow>
               [DrawQuad (accumRenderTarget s') (Some (colorBuffer rt)) 1 gamma True,
                DrawQuad (firstRenderTarget s') (Some (colorBuffer rt)) 1 1 True])
          @ [DrawQuad None (firstTexture s') 1 1 False]"
proof -
  obtain s1 pre d where p: "prepareTexture s =
         (Inr (sampleId s + 1 < length (samples s)),
          s1\<lparr>device := d,
             sampleId := (if sampleId s < length (samples s)
                          then sampleId s + 1 else sampleId s)\<rparr>)"
    and f: "sampleId s1 = sampleId s" "camera s1 = camera s"
    and a: "\<forall>c \<in> set pre. is_allocation c"
    and c: "calls d = calls (device s) @ pre @ grabpass_calls (length (samples s)) s1
                  @ [DrawQuad None (firstTexture s1) 1 1 False]"
    using prepareTexture_summary[of s] by blast
  let ?s' = "s1\<lparr>device := d, sampleId := 1\<rparr>"
  have 1: "prepareTexture s = (Inr (1 < length (samples s)), ?s')"
    using p assms by simp
  have 2: "sampleId ?s' = 1" by simp
  have 3: "calls (device ?s') = calls (device s) @ pre @
          (case renderTarget (camera s) of
             None \<Rightarrow> []
           | Some rt \<Rightarrow>
               [DrawQuad (accumRenderTarget ?s') (Some (colorBuffer rt)) 1 gamma True,
                DrawQuad (firstRenderTarget ?s') (Some (colorBuffer rt)) 1 1 True])
          @ [DrawQuad None (firstTexture ?s') 1 1 False]"
    using assms by (simp add: c grabpass_calls_def f split: option.splits)
  show ?thesis
    by (rule exI[of _ ?s'], rule exI[of _ pre]) (intro conjI 1 2 3 a)
qed

lemma constructed_single_sample:
  "length (samples (new_Multiframe dev cam 1 rnd)) = 1"
  by (simp add: new_Multiframe_def generate_samples_length)

lemma prepareTexture_frame:
  "camera (snd (prepareTexture s)) = camera s"
  "samples (snd (prepareTexture s)) = samples s"
  "sampleId (snd (prepareTexture s)) =
     (if sampleId s < length (samples s) then sampleId s + 1 else sampleId s)"
proof -
  obtain s1 pre d where p: "prepareTexture s =
         (Inr (sampleId s + 1 < length (samples s)),
          s1\<lparr>device := d,
             sampleId := (if sampleId s < length (samples s)
                          then sampleId s + 1 else sampleId s)\<rparr>)"
    and f: "samples s1 = samples s" "camera s1 = camera s"
    using prepareTexture_summary[of s] by blast
  show "camera (snd (prepareTexture s)) = camera s"
    "samples (snd (prepareTexture s)) = samples s"
    "sampleId (snd (prepareTexture s)) =
     (if sampleId s < length (samples s) then sampleId s + 1 else sampleId s)"
    by (simp_all add: p f)
qed

lemma ex_multiframe_frame:
  "camera (ex_multiframe n) = ex_camera" "sampleId (ex_multiframe n) = 0"
  "length (samples (ex_multiframe n)) = n * n"
  by (simp_all add: ex_multiframe_def new_Multiframe_def generate_samples_length)

lemma ex_last_sample:
  "renderTarget (camera (ex_after_steps 2 3)) = Some ex_scene_target"
  "sampleId (ex_after_steps 2 3) = 3"
  "length (samples (ex_after_steps 2 3)) = 4"
  by (simp_all add: eval_nat_numeral prepareTexture_frame ex_multiframe_frame ex_camera_def)

lemma ex_no_scene_target:
  "renderTarget (camera (new_Multiframe ex_device (ex_camera\<lparr>renderTarget := None\<rparr>) 1 (\<lambda>k. 1 / 2))) = None"
  "sampleId (new_Multiframe ex_device (ex_camera\<lparr>renderTarget := None\<rparr>) 1 (\<lambda>k. 1 / 2)) = 0"
  "length (samples (new_Multiframe ex_device (ex_camera\<lparr>renderTarget := None\<rparr>) 1 (\<lambda>k. 1 / 2))) = 1"
  by (simp_all add: ex_defs)

section \<open>Releasing the resources\<close>

text \<open>
  C9. \<open>destroy\<close> is safe on any state, also a partially initialised one: it never throws
  (no member that is \<open>null\<close> is dereferenced), it leaves every one of the four references
  \<open>null\<close>, having destroyed exactly the members that were not, and a second call from the
  released state is a no-op that ends in the same state.
\<close>

theorem destroy_safe_idempotent:
  "\<exists>s'. destroy s = (Inr (), s')
     \<and> firstTexture s' = None \<and> firstRenderTarget s' = None
     \<and> accumRenderTarget s' = None \<and> accumTexture s' = None
     \<and> calls (device s') = calls (device s) @ release_calls s
     \<and> destroy s' = (Inr (), s')"
proof -
  let ?s' = "snd (destroy s)"
  have 1: "destroy s = (Inr (), ?s')" by (simp add: destroy_run)
  have 2: "firstTexture ?s' = None" "firstRenderTarget ?s' = None"
    "accumRenderTarget ?s' = None" "accumTexture ?s' = None"
    "calls (device ?s') = calls (device s) @ release_calls s"
    by (simp_all add: destroy_run)
  have 3: "destroy ?s' = (Inr (), ?s')"
    using 2(1-4) by (simp add: destroy_def meth_defs)
  from 1 2 3 show ?thesis by blast
qed

theorem destroy_safe_idempotent_witness:
  "firstTexture (snd (destroy (snd (prepareTexture (ex_multiframe 1))))) = None
   \<and> calls (device (snd (destroy (snd (prepareTexture (ex_multiframe 1)))))) =
       calls (device (snd (prepareTexture (ex_multiframe 1))))
       @ release_calls (snd (prepareTexture (ex_multiframe 1)))
   \<and> length (release_calls (snd (prepareTexture (ex_multiframe 1)))) = 4"
  using destroy_safe_idempotent[of "snd (prepareTexture (ex_multiframe 1))"]
  by (auto simp: release_calls_def run_defs ex_defs)

section \<open>The render hooks\<close>

lemma onPreRender_in_range:
  assumes "sampleId s < length (samples s)"
  shows "\<exists>s'. onPreRender s = (Inr (), s')
     \<and> store s' = Vec2 (projectionMatrix (camera s) 12) (projectionMatrix (camera s) 13)
     \<and> projectionMatrix (camera s') 8 =
         projectionMatrix (camera s) 8
         + vec_x (samples s ! sampleId s) / real (dev_width (device s))
     \<and> projectionMatrix (camera s') 9 =
         projectionMatrix (camera s) 9
         + vec_y (samples s ! sampleId s) / real (dev_height (device s))
     \<and> viewMatDirty (camera s') \<and> viewProjMatDirty (camera s')
     \<and> scope_globalTextureBias (device s') = (if sampleId s = 0 then 0 else - 5)"
  using assms by (simp add: onPreRender_def Let_def)

lemma onPostRender_run:
  "\<exists>s'. onPostRender s = (Inr (), s')
     \<and> projectionMatrix (camera s') 8 = vec_x (store s)
     \<and> projectionMatrix (camera s') 9 = vec_y (store s)"
  by (simp add: onPostRender_def seq_def mutate_def)

lemma jitter_restores_entries_12_13:
  assumes "sampleId s < length (samples s)"
  shows "\<exists>s1 s2. onPreRender s = (Inr (), s1) \<and> onPostRender s1 = (Inr (), s2)
     \<and> projectionMatrix (camera s2) 8 = projectionMatrix (camera s) 12
     \<and> projectionMatrix (camera s2) 9 = projectionMatrix (camera s) 13"
  using assms by (simp add: onPreRender_def onPostRender_def seq_def mutate_def Let_def)

text \<open>
  C1. The round trip of the two hooks does not bring the principal-point entries back:
  \<open>onPreRender\<close> saves entries 12 and 13 of the projection matrix, perturbs entries 8 and
  9, and \<open>onPostRender\<close> writes the saved entries 12 and 13 into entries 8 and 9. On the
  off-centre projection of \<open>ex_camera\<close> entry 8 is \<open>1/4\<close> before the hooks and \<open>0\<close> after.
\<close>

theorem jitter_round_trip_fails:
  "projectionMatrix (camera (ex_multiframe 1)) 8 = 1 / 4
   \<and> fst (onPreRender (ex_multiframe 1)) = Inr ()
   \<and> fst (onPostRender (snd (onPreRender (ex_multiframe 1)))) = Inr ()
   \<and> projectionMatrix (camera (snd (onPostRender (snd (onPreRender (ex_multiframe 1)))))) 8 = 0"
  by (simp add: onPreRender_def onPostRender_def seq_def mutate_def Let_def ex_defs ex_pmat_def)

text \<open>
  C8. The sampling bias. When the sample index is the index of a sample, \<open>onPreRender\<close>
  returns and has set the global texture bias to exactly 0 at index 0 and to exactly -5
  at every greater index, and to no other value. When the index is not the index of a
  sample (the sequence has converged) the hook throws on reading the sample, before the
  render and before any bias is set, and leaves the device as it was.
\<close>

theorem sampling_bias:
  "(sampleId s < length (samples s) \<longrightarrow>
      (\<exists>s'. onPreRender s = (Inr (), s')
         \<and> scope_globalTextureBias (device s') = (if sampleId s = 0 then 0 else - 5.0)
         \<and> scope_globalTextureBias (device s') \<in> {0, - 5.0}))
   \<and> (\<not> sampleId s < length (samples s) \<longrightarrow>
      (\<exists>s'. onPreRender s = (Inl TypeError, s') \<and> device s' = device s))"
  by (simp add: onPreRender_def Let_def)

theorem sampling_bias_witness:
  "sampleId (ex_multiframe 2) < length (samples (ex_multiframe 2))
   \<and> scope_globalTextureBias (device (snd (onPreRender (ex_multiframe 2)))) = 0
   \<and> sampleId (snd (prepareTexture (ex_multiframe 2)))
       < length (samples (snd (prepareTexture (ex_multiframe 2))))
   \<and> scope_globalTextureBias
        (device (snd (onPreRender (snd (prepareTexture (ex_multiframe 2)))))) = - 5
   \<and> \<not> sampleId (snd (prepareTexture (ex_multiframe 1)))
       < length (samples (snd (prepareTexture (ex_multiframe 1))))
   \<and> fst (onPreRender (snd (prepareTexture (ex_multiframe 1)))) = Inl TypeError"
  using sampling_bias[of "ex_multiframe 2"]
    sampling_bias[of "snd (prepareTexture (ex_multiframe 2))"]
    sampling_bias[of "snd (prepareTexture (ex_multiframe 1))"]
  by (auto simp: run_defs ex_defs)


section \<open>One step of the accumulation\<close>

text \<open>
  C2, as the code has it. When the accumulation texture exists and its dimensions differ
  from the device's, \<open>prepareTexture\<close> first destroys every member that is not \<open>null\<close>
  (all four resources), then allocates the two textures and the two render targets anew
  at the device's dimensions, before anything is drawn. The sample index is not reset:
  it is advanced as on any other call, by one if it is below the number of samples and
  not at all otherwise.
\<close>

theorem resize_reallocates_without_reset:
  assumes "accumTexture s = Some t"
    and "tex_width t \<noteq> dev_width (device s) \<or> tex_height t \<noteq> dev_height (device s)"
  shows "\<exists>b s' rest otex otgt atex atgt. prepareTexture s = (Inr b, s')
     \<and> calls (device s') =
         calls (device s) @ release_calls s
         @ [TextureCreate otex, RenderTargetCreate otgt, TextureCreate atex, RenderTargetCreate atgt]
         @ rest
     \<and> (\<forall>x. firstTexture s = Some x \<longrightarrow> TextureDestroy x \<in> set (release_calls s))
     \<and> (\<forall>x. firstRenderTarget s = Some x \<longrightarrow> RenderTargetDestroy x \<in> set (release_calls s))
     \<and> (\<forall>x. accumRenderTarget s = Some x \<longrightarrow> RenderTargetDestroy x \<in> set (release_calls s))
     \<and> TextureDestroy t \<in> set (release_calls s)
     \<and> firstTexture s' = Some otex \<and> firstRenderTarget s' = Some otgt
     \<and> accumTexture s' = Some atex \<and> accumRenderTarget s' = Some atgt
     \<and> colorBuffer otgt = otex \<and> colorBuffer atgt = atex
     \<and> tex_width otex = dev_width (device s') \<and> tex_height otex = dev_height (device s')
     \<and> tex_width atex = dev_width (device s') \<and> tex_height atex = dev_height (device s')
     \<and> dev_width (device s') = dev_width (device s)
     \<and> dev_height (device s') = dev_height (device s)
     \<and> sampleId s' = (if sampleId s < length (samples s) then sampleId s + 1 else sampleId s)"
proof -
  note e = ensure_textures_resized[OF assms]
  obtain s1 where s1: "ensure_textures s = (Inr (), s1)" by (simp add: e)
  then have s1_eq: "s1 = snd (ensure_textures s)" by simp
  obtain d where p: "prepareTexture s =
        (Inr (sampleId s1 + 1 < length (samples s1)),
         s1\<lparr>device := d,
            sampleId := (if sampleId s1 < length (samples s1)
                         then sampleId s1 + 1 else sampleId s1)\<rparr>)"
    and g: "calls d = calls (device s1) @ grabpass_calls (length (samples s1)) s1
                  @ [DrawQuad None (firstTexture s1) 1 1 False]"
      "dev_width d = dev_width (device s1)" "dev_height d = dev_height (device s1)"
    using prepareTexture_run[OF s1] by blast
  have rel: "(\<forall>x. firstTexture s = Some x \<longrightarrow> TextureDestroy x \<in> set (release_calls s))"
    "(\<forall>x. firstRenderTarget s = Some x \<longrightarrow> RenderTargetDestroy x \<in> set (release_calls s))"
    "(\<forall>x. accumRenderTarget s = Some x \<longrightarrow> RenderTargetDestroy x \<in> set (release_calls s))"
    "TextureDestroy t \<in> set (release_calls s)"
    using assms(1) by (simp_all add: release_calls_def)
  let ?s' = "s1\<lparr>device := d,
            sampleId := (if sampleId s1 < length (samples s1)
                         then sampleId s1 + 1 else sampleId s1)\<rparr>"
  have s1f: "firstTexture s1 = Some (output_texture (device s))"
    "firstRenderTarget s1 = Some (output_target (device s))"
    "accumTexture s1 = Some (accumulation_texture (pixelFormat s) (device s))"
    "accumRenderTarget s1 = Some (accumulation_target (pixelFormat s) (device s))"
    "sampleId s1 = sampleId s" "samples s1 = samples s"
    "dev_width (device s1) = dev_width (device s)"
    "dev_height (device s1) = dev_height (device s)"
    "calls (device s1) =
       calls (device s) @ release_calls s @ create_calls (pixelFormat s) (device s)"
    by (simp_all add: s1_eq e)
  have c1: "calls (device ?s') =
         calls (device s) @ release_calls s
         @ [TextureCreate (output_texture (device s)),
            RenderTargetCreate (output_target (device s)),
            TextureCreate (accumulation_texture (pixelFormat s) (device s)),
            RenderTargetCreate (accumulation_target (pixelFormat s) (device s))]
         @ (grabpass_calls (length (samples s1)) s1
                  @ [DrawQuad None (firstTexture s1) 1 1 False])"
    by (simp add: g s1f(9) create_calls_def)
  have c2: "colorBuffer (output_target (device s)) = output_texture (device s)"
    "colorBuffer (accumulation_target (pixelFormat s) (device s))
       = accumulation_texture (pixelFormat s) (device s)"
    "tex_width (output_texture (device s)) = dev_width (device ?s')"
    "tex_height (output_texture (device s)) = dev_height (device ?s')"
    "tex_width (accumulation_texture (pixelFormat s) (device s)) = dev_width (device ?s')"
    "tex_height (accumulation_texture (pixelFormat s) (device s)) = dev_height (device ?s')"
    "dev_width (device ?s') = dev_width (device s)"
    "dev_height (device ?s') = dev_height (device s)"
    by (simp_all add: g s1f output_texture_def output_target_def
        accumulation_texture_def accumulation_target_def)
  have c3: "firstTexture ?s' = Some (output_texture (device s))"
    "firstRenderTarget ?s' = Some (output_target (device s))"
    "accumTexture ?s' = Some (accumulation_texture (pixelFormat s) (device s))"
    "accumRenderTarget ?s' = Some (accumulation_target (pixelFormat s) (device s))"
    "sampleId ?s' = (if sampleId s < length (samples s) then sampleId s + 1 else sampleId s)"
    by (simp_all add: s1f)
  from p c1 c2 c3 rel show ?thesis by blast
qed


theorem resize_reallocates_without_reset_witness:
  "accumTexture (resize_device 400 100 (snd (prepareTexture (ex_multiframe 2))))
     = Some (accumulation_texture PIXELFORMAT_RGBA16F ex_device)
   \<and> tex_width (accumulation_texture PIXELFORMAT_RGBA16F ex_device)
       \<noteq> dev_width (device (resize_device 400 100 (snd (prepareTexture (ex_multiframe 2)))))
   \<and> sampleId (resize_device 400 100 (snd (prepareTexture (ex_multiframe 2)))) = 1
   \<and> (\<exists>b s' otex. prepareTexture (resize_device 400 100 (snd (prepareTexture (ex_multiframe 2))))
          = (Inr b, s')
        \<and> sampleId s' = 2 \<and> firstTexture s' = Some otex \<and> tex_width otex = 400)"
proof -
  let ?S = "resize_device 400 100 (snd (prepareTexture (ex_multiframe 2)))"
  let ?T = "accumulation_texture PIXELFORMAT_RGBA16F ex_device"
  have h1: "accumTexture ?S = Some ?T"
    by (simp add: run_defs ex_defs accumulation_texture_def)
  have h2: "tex_width ?T \<noteq> dev_width (device ?S)"
    by (simp add: run_defs ex_defs accumulation_texture_def)
  then have h2': "tex_width ?T \<noteq> dev_width (device ?S) \<or> tex_height ?T \<noteq> dev_height (device ?S)"
    by blast
  have h3: "sampleId ?S = 1" "length (samples ?S) = 4" "dev_width (device ?S) = 400"
    by (simp_all add: run_defs ex_defs)
  from resize_reallocates_without_reset[OF h1 h2']
  obtain b s' otex where "prepareTexture ?S = (Inr b, s')"
    "sampleId s' = (if sampleId ?S < length (samples ?S) then sampleId ?S + 1 else sampleId ?S)"
    "firstTexture s' = Some otex" "tex_width otex = dev_width (device s')"
    "dev_width (device s') = dev_width (device ?S)"
    by blast
  then have "prepareTexture ?S = (Inr b, s') \<and> sampleId s' = 2
      \<and> firstTexture s' = Some otex \<and> tex_width otex = 400"
    using h3 by simp
  then have "\<exists>b s' otex. prepareTexture ?S = (Inr b, s') \<and> sampleId s' = 2
      \<and> firstTexture s' = Some otex \<and> tex_width otex = 400"
    by blast
  with h1 h2 h3(1) show ?thesis by blast
qed

text \<open>
  The claim as stated fails: after one step of a four-sample sequence on a 200 by 100
  device the canvas is resized to 400 by 100; the next step starts at sample index 1 and
  ends at 2, where a reset would have it start at 0.
\<close>

theorem resize_reset_counterexample:
  "accumTexture (snd (prepareTexture (ex_multiframe 2))) \<noteq> None
   \<and> tex_width (the (accumTexture (resize_device 400 100 (snd (prepareTexture (ex_multiframe 2))))))
       \<noteq> dev_width (device (resize_device 400 100 (snd (prepareTexture (ex_multiframe 2)))))
   \<and> sampleId (resize_device 400 100 (snd (prepareTexture (ex_multiframe 2)))) = 1
   \<and> fst (prepareTexture (resize_device 400 100 (snd (prepareTexture (ex_multiframe 2)))))
       = Inr True
   \<and> sampleId (snd (prepareTexture (resize_device 400 100 (snd (prepareTexture (ex_multiframe 2))))))
       = 2"
  by (simp add: run_defs ex_defs)

text \<open>
  C3, as the code has it. Every call of \<open>prepareTexture\<close> returns, and it counts the
  sample exactly when the sample index was below the number of samples, whether or not a
  scene render target was there. When there was one, the writes of that sample are among
  the calls of the same step: the gamma-encoded draw into the accumulation target, at
  index 0 the draw into the output target, and on the last sample the resolve into the
  output target. When there was none, the step draws into no render target, and counts
  the sample all the same.
\<close>

theorem sample_counted_on_every_step:
  "\<exists>b s' ex. prepareTexture s = (Inr b, s')
     \<and> sampleId s' = (if sampleId s < length (samples s) then sampleId s + 1 else sampleId s)
     \<and> calls (device s') = calls (device s) @ ex
     \<and> (\<forall>rt. renderTarget (camera s) = Some rt \<and> sampleId s < length (samples s) \<longrightarrow>
          DrawQuad (accumRenderTarget s') (Some (colorBuffer rt)) 1 gamma True \<in> set ex
          \<and> (sampleId s = 0 \<longrightarrow>
               DrawQuad (firstRenderTarget s') (Some (colorBuffer rt)) 1 1 True \<in> set ex)
          \<and> (0 < sampleId s \<and> sampleId s + 1 = length (samples s) \<longrightarrow>
               DrawQuad (firstRenderTarget s') (accumTexture s') 1 (1 / gamma) False \<in> set ex))
     \<and> (renderTarget (camera s) = None \<longrightarrow> (\<forall>c \<in> set ex. \<not> writes_target c))"
proof -
  obtain s1 pre d where p: "prepareTexture s =
         (Inr (sampleId s + 1 < length (samples s)),
          s1\<lparr>device := d,
             sampleId := (if sampleId s < length (samples s)
                          then sampleId s + 1 else sampleId s)\<rparr>)"
    and f: "sampleId s1 = sampleId s" "camera s1 = camera s"
    and a: "\<forall>c \<in> set pre. is_allocation c"
    and c: "calls d = calls (device s) @ pre @ grabpass_calls (length (samples s)) s1
                  @ [DrawQuad None (firstTexture s1) 1 1 False]"
    using prepareTexture_summary[of s] by blast
  let ?s' = "s1\<lparr>device := d,
             sampleId := (if sampleId s < length (samples s)
                          then sampleId s + 1 else sampleId s)\<rparr>"
  let ?ex = "pre @ grabpass_calls (length (samples s)) s1
                  @ [DrawQuad None (firstTexture s1) 1 1 False]"
  have 1: "sampleId ?s' = (if sampleId s < length (samples s) then sampleId s + 1 else sampleId s)"
    by simp
  have 2: "calls (device ?s') = calls (device s) @ ?ex" by (simp add: c)
  have 3: "\<forall>rt. renderTarget (camera s) = Some rt \<and> sampleId s < length (samples s) \<longrightarrow>
          DrawQuad (accumRenderTarget ?s') (Some (colorBuffer rt)) 1 gamma True \<in> set ?ex
          \<and> (sampleId s = 0 \<longrightarrow>
               DrawQuad (firstRenderTarget ?s') (Some (colorBuffer rt)) 1 1 True \<in> set ?ex)
          \<and> (0 < sampleId s \<and> sampleId s + 1 = length (samples s) \<longrightarrow>
               DrawQuad (firstRenderTarget ?s') (accumTexture ?s') 1 (1 / gamma) False \<in> set ?ex)"
    by (auto simp: grabpass_calls_def f)
  have 4: "renderTarget (camera s) = None \<longrightarrow> (\<forall>c \<in> set ?ex. \<not> writes_target c)"
    using a allocation_is_no_draw by (auto simp: grabpass_calls_def f)
  show ?thesis
    by (rule exI[of _ "sampleId s + 1 < length (samples s)"], rule exI[of _ ?s'],
        rule exI[of _ ?ex]) (intro conjI p 1 2 3 4)
qed

theorem sample_counted_on_every_step_witness:
  "renderTarget (camera (ex_multiframe 1)) = Some ex_scene_target
   \<and> sampleId (ex_multiframe 1) = 0 \<and> length (samples (ex_multiframe 1)) = 1
   \<and> (\<exists>b s' ex. prepareTexture (ex_multiframe 1) = (Inr b, s')
        \<and> sampleId s' = 1
        \<and> calls (device s') = calls (device (ex_multiframe 1)) @ ex
        \<and> DrawQuad (accumRenderTarget s') (Some (colorBuffer ex_scene_target)) 1 gamma True
             \<in> set ex
        \<and> DrawQuad (firstRenderTarget s') (Some (colorBuffer ex_scene_target)) 1 1 True
             \<in> set ex)
   \<and> renderTarget (camera (ex_after_steps 2 3)) = Some ex_scene_target
   \<and> sampleId (ex_after_steps 2 3) = 3 \<and> length (samples (ex_after_steps 2 3)) = 4
   \<and> (\<exists>b s' ex. prepareTexture (ex_after_steps 2 3) = (Inr b, s')
        \<and> sampleId s' = 4
        \<and> calls (device s') = calls (device (ex_after_steps 2 3)) @ ex
        \<and> DrawQuad (accumRenderTarget s') (Some (colorBuffer ex_scene_target)) 1 gamma True
             \<in> set ex
        \<and> DrawQuad (firstRenderTarget s') (accumTexture s') 1 (1 / gamma) False \<in> set ex)
   \<and> renderTarget (camera (new_Multiframe ex_device (ex_camera\<lparr>renderTarget := None\<rparr>) 1
         (\<lambda>k. 1 / 2))) = None
   \<and> (\<exists>b s' ex. prepareTexture (new_Multiframe ex_device (ex_camera\<lparr>renderTarget := None\<rparr>) 1
           (\<lambda>k. 1 / 2)) = (Inr b, s')
        \<and> sampleId s' = 1
        \<and> calls (device s') =
            calls (device (new_Multiframe ex_device (ex_camera\<lparr>renderTarget := None\<rparr>) 1
              (\<lambda>k. 1 / 2))) @ ex
        \<and> list_all (\<lambda>c. \<not> writes_target c) ex)"
proof -
  let ?S = "ex_multiframe 1"
  let ?L = "ex_after_steps 2 3"
  let ?N = "new_Multiframe ex_device (ex_camera\<lparr>renderTarget := None\<rparr>) 1 (\<lambda>k. 1 / 2)"
  have h: "renderTarget (camera ?S) = Some ex_scene_target" "sampleId ?S = 0"
    "length (samples ?S) = 1"
    by (simp_all add: ex_defs)
  note l = ex_last_sample
  note n = ex_no_scene_target
  from sample_counted_on_every_step[of ?S]
  obtain b s' ex where r: "prepareTexture ?S = (Inr b, s')"
    "sampleId s' = (if sampleId ?S < length (samples ?S) then sampleId ?S + 1 else sampleId ?S)"
    "calls (device s') = calls (device ?S) @ ex"
    "\<forall>rt. renderTarget (camera ?S) = Some rt \<and> sampleId ?S < length (samples ?S) \<longrightarrow>
          DrawQuad (accumRenderTarget s') (Some (colorBuffer rt)) 1 gamma True \<in> set ex
          \<and> (sampleId ?S = 0 \<longrightarrow>
               DrawQuad (firstRenderTarget s') (Some (colorBuffer rt)) 1 1 True \<in> set ex)
          \<and> (0 < sampleId ?S \<and> sampleId ?S + 1 = length (samples ?S) \<longrightarrow>
               DrawQuad (firstRenderTarget s') (accumTexture s') 1 (1 / gamma) False \<in> set ex)"
    by blast
  from r(4) h have
    "DrawQuad (accumRenderTarget s') (Some (colorBuffer ex_scene_target)) 1 gamma True \<in> set ex"
    "DrawQuad (firstRenderTarget s') (Some (colorBuffer ex_scene_target)) 1 1 True \<in> set ex"
    by simp_all
  moreover from r(2) h have "sampleId s' = 1" by simp
  ultimately have A: "\<exists>b s' ex. prepareTexture ?S = (Inr b, s')
        \<and> sampleId s' = 1
        \<and> calls (device s') = calls (device ?S) @ ex
        \<and> DrawQuad (accumRenderTarget s') (Some (colorBuffer ex_scene_target)) 1 gamma True
             \<in> set ex
        \<and> DrawQuad (firstRenderTarget s') (Some (colorBuffer ex_scene_target)) 1 1 True
             \<in> set ex"
    using r(1,3) by blast
  from sample_counted_on_every_step[of ?L]
  obtain b2 s2 ex2 where r2: "prepareTexture ?L = (Inr b2, s2)"
    "sampleId s2 = (if sampleId ?L < length (samples ?L) then sampleId ?L + 1 else sampleId ?L)"
    "calls (device s2) = calls (device ?L) @ ex2"
    "\<forall>rt. renderTarget (camera ?L) = Some rt \<and> sampleId ?L < length (samples ?L) \<longrightarrow>
          DrawQuad (accumRenderTarget s2) (Some (colorBuffer rt)) 1 gamma True \<in> set ex2
          \<and> (sampleId ?L = 0 \<longrightarrow>
               DrawQuad (firstRenderTarget s2) (Some (colorBuffer rt)) 1 1 True \<in> set ex2)
          \<and> (0 < sampleId ?L \<and> sampleId ?L + 1 = length (samples ?L) \<longrightarrow>
               DrawQuad (firstRenderTarget s2) (accumTexture s2) 1 (1 / gamma) False \<in> set ex2)"
    by blast
  from r2(4) l have
    "DrawQuad (accumRenderTarget s2) (Some (colorBuffer ex_scene_target)) 1 gamma True \<in> set ex2"
    "DrawQuad (firstRenderTarget s2) (accumTexture s2) 1 (1 / gamma) False \<in> set ex2"
    by simp_all
  moreover from r2(2) l have "sampleId s2 = 4" by simp
  ultimately have B: "\<exists>b s' ex. prepareTexture ?L = (Inr b, s')
        \<and> sampleId s' = 4
        \<and> calls (device s') = calls (device ?L) @ ex
        \<and> DrawQuad (accumRenderTarget s') (Some (colorBuffer ex_scene_target)) 1 gamma True
             \<in> set ex
        \<and> DrawQuad (firstRenderTarget s') (accumTexture s') 1 (1 / gamma) False \<in> set ex"
    using r2(1,3) by blast
  from sample_counted_on_every_step[of ?N]
  obtain b3 s3 ex3 where r3: "prepareTexture ?N = (Inr b3, s3)"
    "sampleId s3 = (if sampleId ?N < length (samples ?N) then sampleId ?N + 1 else sampleId ?N)"
    "calls (device s3) = calls (device ?N) @ ex3"
    "renderTarget (camera ?N) = None \<longrightarrow> (\<forall>c \<in> set ex3. \<not> writes_target c)"
    by (elim exE conjE) (rule that)
  from r3(4) n have "list_all (\<lambda>c. \<not> writes_target c) ex3" by (simp add: list_all_iff)
  moreover from r3(2) n have "sampleId s3 = 1" by simp
  ultimately have C: "\<exists>b s' ex. prepareTexture ?N = (Inr b, s')
        \<and> sampleId s' = 1
        \<and> calls (device s') = calls (device ?N) @ ex
        \<and> list_all (\<lambda>c. \<not> writes_target c) ex"
    using r3(1,3) by blast
  from h A l B n(1) C show ?thesis by (intro conjI)
qed

text \<open>
  The claim as stated fails: with no scene render target, the first step of a one-sample
  sequence allocates the textures and copies the output texture to the back buffer,
  draws into neither the accumulation nor the output target, and still moves the sample
  index from 0 to 1.
\<close>

theorem sample_counting_counterexample:
  "renderTarget (camera (new_Multiframe ex_device (ex_camera\<lparr>renderTarget := None\<rparr>) 1 (\<lambda>k. 1 / 2)))
     = None
   \<and> sampleId (new_Multiframe ex_device (ex_camera\<lparr>renderTarget := None\<rparr>) 1 (\<lambda>k. 1 / 2)) = 0
   \<and> fst (prepareTexture
        (new_Multiframe ex_device (ex_camera\<lparr>renderTarget := None\<rparr>) 1 (\<lambda>k. 1 / 2)))
       = Inr False
   \<and> sampleId (snd (prepareTexture
        (new_Multiframe ex_device (ex_camera\<lparr>renderTarget := None\<rparr>) 1 (\<lambda>k. 1 / 2)))) = 1
   \<and> calls (device (snd (prepareTexture
        (new_Multiframe ex_device (ex_camera\<lparr>renderTarget := None\<rparr>) 1 (\<lambda>k. 1 / 2))))) =
       [TextureCreate (output_texture ex_device),
        RenderTargetCreate (output_target ex_device),
        TextureCreate (accumulation_texture PIXELFORMAT_RGBA16F ex_device),
        RenderTargetCreate (accumulation_target PIXELFORMAT_RGBA16F ex_device),
        DrawQuad None (Some (output_texture ex_device)) 1 1 False]"
  by (simp add: run_defs ex_defs output_texture_def output_target_def
      accumulation_texture_def accumulation_target_def)

text \<open>
  C6, as the code has it. Whenever the sample index equals the number of samples and the
  accumulation texture exists at the device's dimensions, \<open>prepareTexture\<close> performs no
  blend and no resolve (its only call is the copy of the output texture to the back
  buffer), leaves the output buffer, the other resources and the sample index as they
  were, and returns \<open>false\<close>; a second call from the state it leaves does exactly the same.
\<close>

theorem converged_step_is_idle:
  assumes "sampleId s = length (samples s)" and "accumTexture s = Some t"
    and "tex_width t = dev_width (device s)" and "tex_height t = dev_height (device s)"
  shows "\<exists>s' s''. prepareTexture s = (Inr False, s')
     \<and> sampleId s' = sampleId s
     \<and> firstTexture s' = firstTexture s \<and> firstRenderTarget s' = firstRenderTarget s
     \<and> accumTexture s' = accumTexture s \<and> accumRenderTarget s' = accumRenderTarget s
     \<and> calls (device s') = calls (device s) @ [DrawQuad None (firstTexture s) 1 1 False]
     \<and> prepareTexture s' = (Inr False, s'')
     \<and> sampleId s'' = sampleId s
     \<and> firstTexture s'' = firstTexture s \<and> firstRenderTarget s'' = firstRenderTarget s
     \<and> accumTexture s'' = accumTexture s \<and> accumRenderTarget s'' = accumRenderTarget s
     \<and> calls (device s'') = calls (device s') @ [DrawQuad None (firstTexture s) 1 1 False]"
proof -
  from converged_step[OF assms] obtain s' where 1: "prepareTexture s = (Inr False, s')"
    "sampleId s' = sampleId s" "samples s' = samples s"
    "firstTexture s' = firstTexture s" "firstRenderTarget s' = firstRenderTarget s"
    "accumTexture s' = accumTexture s" "accumRenderTarget s' = accumRenderTarget s"
    "dev_width (device s') = dev_width (device s)"
    "dev_height (device s') = dev_height (device s)"
    "calls (device s') = calls (device s) @ [DrawQuad None (firstTexture s) 1 1 False]"
    by blast
  have h: "sampleId s' = length (samples s')" "accumTexture s' = Some t"
    "tex_width t = dev_width (device s')" "tex_height t = dev_height (device s')"
    using assms 1 by simp_all
  from converged_step[OF h] obtain s'' where 2: "prepareTexture s' = (Inr False, s'')"
    "sampleId s'' = sampleId s'"
    "firstTexture s'' = firstTexture s'" "firstRenderTarget s'' = firstRenderTarget s'"
    "accumTexture s'' = accumTexture s'" "accumRenderTarget s'' = accumRenderTarget s'"
    "calls (device s'') = calls (device s') @ [DrawQuad None (firstTexture s') 1 1 False]"
    by blast
  show ?thesis
    by (rule exI[of _ s'], rule exI[of _ s'']) (simp add: 1 2)
qed

theorem converged_step_is_idle_witness:
  "sampleId (snd (prepareTexture (ex_multiframe 1)))
     = length (samples (snd (prepareTexture (ex_multiframe 1))))
   \<and> accumTexture (snd (prepareTexture (ex_multiframe 1)))
       = Some (accumulation_texture PIXELFORMAT_RGBA16F ex_device)
   \<and> tex_width (accumulation_texture PIXELFORMAT_RGBA16F ex_device)
       = dev_width (device (snd (prepareTexture (ex_multiframe 1))))
   \<and> tex_height (accumulation_texture PIXELFORMAT_RGBA16F ex_device)
       = dev_height (device (snd (prepareTexture (ex_multiframe 1))))
   \<and> fst (prepareTexture (snd (prepareTexture (ex_multiframe 1)))) = Inr False
   \<and> sampleId (snd (prepareTexture (snd (prepareTexture (ex_multiframe 1))))) = 1"
proof -
  let ?S = "snd (prepareTexture (ex_multiframe 1))"
  let ?T = "accumulation_texture PIXELFORMAT_RGBA16F ex_device"
  have h: "sampleId ?S = length (samples ?S)" "accumTexture ?S = Some ?T"
    "tex_width ?T = dev_width (device ?S)" "tex_height ?T = dev_height (device ?S)"
    by (simp_all add: run_defs ex_defs accumulation_texture_def)
  have n: "sampleId ?S = 1" by (simp add: run_defs ex_defs)
  from converged_step_is_idle[OF h] obtain s' where
    "prepareTexture ?S = (Inr False, s')" "sampleId s' = sampleId ?S"
    by blast
  then have "fst (prepareTexture ?S) = Inr False" "sampleId (snd (prepareTexture ?S)) = 1"
    using n by simp_all
  with h show ?thesis by blast
qed

text \<open>
  The claim as stated fails when the canvas was resized after convergence: the step
  destroys the output texture and allocates a new, blank one at the new size, while the
  sample index stays at the number of samples and the result is \<open>false\<close>.
\<close>

theorem converged_output_counterexample:
  "sampleId (resize_device 400 100 (snd (prepareTexture (ex_multiframe 1))))
     = length (samples (resize_device 400 100 (snd (prepareTexture (ex_multiframe 1)))))
   \<and> fst (prepareTexture (resize_device 400 100 (snd (prepareTexture (ex_multiframe 1)))))
       = Inr False
   \<and> firstTexture (resize_device 400 100 (snd (prepareTexture (ex_multiframe 1))))
       = Some \<lparr>tex_id = 0, tex_width = 200, tex_height = 100, tex_format = None,
               tex_mipmaps = False\<rparr>
   \<and> firstTexture (snd (prepareTexture (resize_device 400 100 (snd (prepareTexture (ex_multiframe 1))))))
       = Some \<lparr>tex_id = 4, tex_width = 400, tex_height = 100, tex_format = None,
               tex_mipmaps = False\<rparr>
   \<and> TextureDestroy \<lparr>tex_id = 0, tex_width = 200, tex_height = 100, tex_format = None,
               tex_mipmaps = False\<rparr>
       \<in> set (calls (device (snd (prepareTexture
             (resize_device 400 100 (snd (prepareTexture (ex_multiframe 1))))))))"
  by (simp add: run_defs ex_defs)

text \<open>
  C10. Every call of \<open>prepareTexture\<close> returns with the device's four blend-function
  factors (\<open>blendSrc\<close>, \<open>blendDst\<close>, \<open>blendSrcAlpha\<close>, \<open>blendDstAlpha\<close>) equal to the values
  they held before the call. On the blend path (a scene render target, a sample index
  above 0 and below the number of samples) the step sets the constant-alpha blend
  function on the GL context, draws into the accumulation target, and then calls
  \<open>setBlendFunctionSeparate\<close> with the four values read before; every call after that is a
  draw.
\<close>

theorem blend_state_restored:
  "\<exists>b s'. prepareTexture s = (Inr b, s')
     \<and> blendSrc (device s') = blendSrc (device s)
     \<and> blendDst (device s') = blendDst (device s)
     \<and> blendSrcAlpha (device s') = blendSrcAlpha (device s)
     \<and> blendDstAlpha (device s') = blendDstAlpha (device s)
     \<and> (\<forall>rt. renderTarget (camera s) = Some rt \<and> 0 < sampleId s
              \<and> sampleId s < length (samples s) \<longrightarrow>
          (\<exists>pre post. (\<forall>c \<in> set pre. is_allocation c) \<and> (\<forall>c \<in> set post. is_draw c)
             \<and> calls (device s') = calls (device s) @ pre @
                 [BlendFuncSeparate GL_CONSTANT_ALPHA GL_ONE_MINUS_CONSTANT_ALPHA GL_ONE GL_ZERO,
                  BlendColor 0 0 0 (1 / (real (sampleId s) + 1)),
                  DrawQuad (accumRenderTarget s') (Some (colorBuffer rt)) 1 gamma True,
                  SetBlendFunctionSeparate (blendSrc (device s)) (blendDst (device s))
                    (blendSrcAlpha (device s)) (blendDstAlpha (device s))] @ post))"
proof -
  obtain s1 pre d where p: "prepareTexture s =
         (Inr (sampleId s + 1 < length (samples s)),
          s1\<lparr>device := d,
             sampleId := (if sampleId s < length (samples s)
                          then sampleId s + 1 else sampleId s)\<rparr>)"
    and b: "blendSrc d = blendSrc (device s)" "blendDst d = blendDst (device s)"
      "blendSrcAlpha d = blendSrcAlpha (device s)" "blendDstAlpha d = blendDstAlpha (device s)"
    using prepareTexture_summary[of s] by blast
  let ?b = "sampleId s + 1 < length (samples s)"
  let ?s' = "s1\<lparr>device := d,
             sampleId := (if sampleId s < length (samples s)
                          then sampleId s + 1 else sampleId s)\<rparr>"
  have 1: "blendSrc (device ?s') = blendSrc (device s)"
    "blendDst (device ?s') = blendDst (device s)"
    "blendSrcAlpha (device ?s') = blendSrcAlpha (device s)"
    "blendDstAlpha (device ?s') = blendDstAlpha (device s)"
    by (simp_all add: b)
  have 2: "\<forall>rt. renderTarget (camera s) = Some rt \<and> 0 < sampleId s
              \<and> sampleId s < length (samples s) \<longrightarrow>
          (\<exists>pre post. (\<forall>c \<in> set pre. is_allocation c) \<and> (\<forall>c \<in> set post. is_draw c)
             \<and> calls (device ?s') = calls (device s) @ pre @
                 [BlendFuncSeparate GL_CONSTANT_ALPHA GL_ONE_MINUS_CONSTANT_ALPHA GL_ONE GL_ZERO,
                  BlendColor 0 0 0 (1 / (real (sampleId s) + 1)),
                  DrawQuad (accumRenderTarget ?s') (Some (colorBuffer rt)) 1 gamma True,
                  SetBlendFunctionSeparate (blendSrc (device s)) (blendDst (device s))
                    (blendSrcAlpha (device s)) (blendDstAlpha (device s))] @ post)"
  proof (intro allI impI)
    fix rt
    assume h: "renderTarget (camera s) = Some rt \<and> 0 < sampleId s
              \<and> sampleId s < length (samples s)"
    then have h1: "renderTarget (camera s) = Some rt" and h2: "0 < sampleId s"
      and h3: "sampleId s < length (samples s)"
      by simp_all
    from blend_step_calls[OF h1 h2 h3]
    obtain b2 s2 pre post where q: "prepareTexture s = (Inr b2, s2)"
      "\<forall>c \<in> set pre. is_allocation c" "\<forall>c \<in> set post. is_draw c"
      "calls (device s2) = calls (device s) @ pre @
          [BlendFuncSeparate GL_CONSTANT_ALPHA GL_ONE_MINUS_CONSTANT_ALPHA GL_ONE GL_ZERO,
           BlendColor 0 0 0 (1 / (real (sampleId s) + 1)),
           DrawQuad (accumRenderTarget s2) (Some (colorBuffer rt)) 1 gamma True,
           SetBlendFunctionSeparate (blendSrc (device s)) (blendDst (device s))
             (blendSrcAlpha (device s)) (blendDstAlpha (device s))] @ post"
      by blast
    from q(1) p have "s2 = ?s'" by simp
    with q(2-4) show "\<exists>pre post. (\<forall>c \<in> set pre. is_allocation c) \<and> (\<forall>c \<in> set post. is_draw c)
             \<and> calls (device ?s') = calls (device s) @ pre @
                 [BlendFuncSeparate GL_CONSTANT_ALPHA GL_ONE_MINUS_CONSTANT_ALPHA GL_ONE GL_ZERO,
                  BlendColor 0 0 0 (1 / (real (sampleId s) + 1)),
                  DrawQuad (accumRenderTarget ?s') (Some (colorBuffer rt)) 1 gamma True,
                  SetBlendFunctionSeparate (blendSrc (device s)) (blendDst (device s))
                    (blendSrcAlpha (device s)) (blendDstAlpha (device s))] @ post"
      by blast
  qed
  show ?thesis
    by (rule exI[of _ ?b], rule exI[of _ ?s']) (intro conjI p 1 2)
qed

theorem blend_state_restored_witness:
  "renderTarget (camera (ex_after_steps 2 1)) = Some ex_scene_target
   \<and> 0 < sampleId (ex_after_steps 2 1)
   \<and> sampleId (ex_after_steps 2 1) < length (samples (ex_after_steps 2 1))
   \<and> (\<exists>b s' pre post. prepareTexture (ex_after_steps 2 1) = (Inr b, s')
        \<and> blendSrc (device s') = 1 \<and> blendDst (device s') = 0
        \<and> blendSrcAlpha (device s') = 1 \<and> blendDstAlpha (device s') = 0
        \<and> calls (device s') = calls (device (ex_after_steps 2 1)) @ pre @
                 [BlendFuncSeparate GL_CONSTANT_ALPHA GL_ONE_MINUS_CONSTANT_ALPHA GL_ONE GL_ZERO,
                  BlendColor 0 0 0 (1 / 2),
                  DrawQuad (accumRenderTarget s') (Some (colorBuffer ex_scene_target)) 1 gamma True,
                  SetBlendFunctionSeparate 1 0 1 0] @ post)"
proof -
  let ?S = "ex_after_steps 2 1"
  note h = ex_after_one_step
  from blend_state_restored[of ?S]
  obtain b s' where r: "prepareTexture ?S = (Inr b, s')"
    "blendSrc (device s') = blendSrc (device ?S)"
    "blendDst (device s') = blendDst (device ?S)"
    "blendSrcAlpha (device s') = blendSrcAlpha (device ?S)"
    "blendDstAlpha (device s') = blendDstAlpha (device ?S)"
    "\<forall>rt. renderTarget (camera ?S) = Some rt \<and> 0 < sampleId ?S
              \<and> sampleId ?S < length (samples ?S) \<longrightarrow>
          (\<exists>pre post. (\<forall>c \<in> set pre. is_allocation c) \<and> (\<forall>c \<in> set post. is_draw c)
             \<and> calls (device s') = calls (device ?S) @ pre @
                 [BlendFuncSeparate GL_CONSTANT_ALPHA GL_ONE_MINUS_CONSTANT_ALPHA GL_ONE GL_ZERO,
                  BlendColor 0 0 0 (1 / (real (sampleId ?S) + 1)),
                  DrawQuad (accumRenderTarget s') (Some (colorBuffer rt)) 1 gamma True,
                  SetBlendFunctionSeparate (blendSrc (device ?S)) (blendDst (device ?S))
                    (blendSrcAlpha (device ?S)) (blendDstAlpha (device ?S))] @ post)"
    by blast
  from r(6) h obtain pre post where
    "calls (device s') = calls (device ?S) @ pre @
                 [BlendFuncSeparate GL_CONSTANT_ALPHA GL_ONE_MINUS_CONSTANT_ALPHA GL_ONE GL_ZERO,
                  BlendColor 0 0 0 (1 / 2),
                  DrawQuad (accumRenderTarget s') (Some (colorBuffer ex_scene_target)) 1 gamma True,
                  SetBlendFunctionSeparate 1 0 1 0] @ post"
    by auto
  with r(1-5) h show ?thesis by (intro conjI exI[of _ b] exI[of _ s'] exI[of _ pre] exI[of _ post]) simp_all
qed

text \<open>
  C4. The blend weight of the incremental mean. At accumulation step \<open>k\<close> (sample index
  \<open>k - 1\<close>) with \<open>2 \<le> k \<le> N\<^sup>2\<close> the step sets the constant blend alpha to exactly \<open>1/k\<close>,
  with the factors \<open>CONSTANT_ALPHA\<close> and \<open>ONE_MINUS_CONSTANT_ALPHA\<close>, before it draws the
  new sample into the accumulation target; at step 1 it sets no blend constant and
  draws the sample as it is, so that \<open>acc\<^sub>1 = sample\<^sub>1\<close>. The weight \<open>1/(sampleIndex+1)\<close> of
  the code is \<open>1/k\<close> and leaves \<open>(k-1)/k\<close> to the accumulated value, and the recurrence
  \<open>acc\<^sub>k = acc\<^sub>k\<^sub>-\<^sub>1 * (k-1)/k + sample\<^sub>k * 1/k\<close> yields the arithmetic mean of the first \<open>k\<close>
  samples. (Arithmetic is over the reals: the rounding of the GPU is not modelled.)
\<close>

theorem incremental_mean_blend_weight:
  "(\<forall>rt. renderTarget (camera s) = Some rt \<and> sampleId s + 1 = k \<and> 2 \<le> k
          \<and> k \<le> length (samples s) \<longrightarrow>
      (\<exists>b s' pre post. prepareTexture s = (Inr b, s')
         \<and> (\<forall>c \<in> set pre. is_allocation c) \<and> (\<forall>c \<in> set post. is_draw c)
         \<and> calls (device s') = calls (device s) @ pre @
              [BlendFuncSeparate GL_CONSTANT_ALPHA GL_ONE_MINUS_CONSTANT_ALPHA GL_ONE GL_ZERO,
               BlendColor 0 0 0 (1 / real k),
               DrawQuad (accumRenderTarget s') (Some (colorBuffer rt)) 1 gamma True,
               SetBlendFunctionSeparate (blendSrc (device s)) (blendDst (device s))
                 (blendSrcAlpha (device s)) (blendDstAlpha (device s))] @ post))
   \<and> (\<forall>rt. renderTarget (camera s) = Some rt \<and> sampleId s + 1 = k \<and> k = 1
          \<and> k \<le> length (samples s) \<longrightarrow>
      (\<exists>b s' pre. prepareTexture s = (Inr b, s')
         \<and> (\<forall>c \<in> set pre. is_allocation c)
         \<and> calls (device s') = calls (device s) @ pre @
              [DrawQuad (accumRenderTarget s') (Some (colorBuffer rt)) 1 gamma True,
               DrawQuad (firstRenderTarget s') (Some (colorBuffer rt)) 1 1 True,
               DrawQuad None (firstTexture s') 1 1 False]))
   \<and> (1 \<le> k \<longrightarrow>
        blend_weight (k - 1) = 1 / real k
        \<and> 1 - blend_weight (k - 1) = real (k - 1) / real k
        \<and> acc sample k = (\<Sum>i = 1..k. sample i) / real k)
   \<and> acc sample 1 = sample 1"
proof -
  have A: "\<forall>rt. renderTarget (camera s) = Some rt \<and> sampleId s + 1 = k \<and> 2 \<le> k
          \<and> k \<le> length (samples s) \<longrightarrow>
      (\<exists>b s' pre post. prepareTexture s = (Inr b, s')
         \<and> (\<forall>c \<in> set pre. is_allocation c) \<and> (\<forall>c \<in> set post. is_draw c)
         \<and> calls (device s') = calls (device s) @ pre @
              [BlendFuncSeparate GL_CONSTANT_ALPHA GL_ONE_MINUS_CONSTANT_ALPHA GL_ONE GL_ZERO,
               BlendColor 0 0 0 (1 / real k),
               DrawQuad (accumRenderTarget s') (Some (colorBuffer rt)) 1 gamma True,
               SetBlendFunctionSeparate (blendSrc (device s)) (blendDst (device s))
                 (blendSrcAlpha (device s)) (blendDstAlpha (device s))] @ post)"
  proof (intro allI impI)
    fix rt
    assume h: "renderTarget (camera s) = Some rt \<and> sampleId s + 1 = k \<and> 2 \<le> k
          \<and> k \<le> length (samples s)"
    then have h1: "renderTarget (camera s) = Some rt" and h2: "0 < sampleId s"
      and h3: "sampleId s < length (samples s)" and hk: "real k = real (sampleId s) + 1"
      by auto
    from blend_step_calls[OF h1 h2 h3]
    obtain b s' pre post where q: "prepareTexture s = (Inr b, s')"
      "\<forall>c \<in> set pre. is_allocation c" "\<forall>c \<in> set post. is_draw c"
      "calls (device s') = calls (device s) @ pre @
          [BlendFuncSeparate GL_CONSTANT_ALPHA GL_ONE_MINUS_CONSTANT_ALPHA GL_ONE GL_ZERO,
           BlendColor 0 0 0 (1 / (real (sampleId s) + 1)),
           DrawQuad (accumRenderTarget s') (Some (colorBuffer rt)) 1 gamma True,
           SetBlendFunctionSeparate (blendSrc (device s)) (blendDst (device s))
             (blendSrcAlpha (device s)) (blendDstAlpha (device s))] @ post"
      by blast
    show "\<exists>b s' pre post. prepareTexture s = (Inr b, s')
         \<and> (\<forall>c \<in> set pre. is_allocation c) \<and> (\<forall>c \<in> set post. is_draw c)
         \<and> calls (device s') = calls (device s) @ pre @
              [BlendFuncSeparate GL_CONSTANT_ALPHA GL_ONE_MINUS_CONSTANT_ALPHA GL_ONE GL_ZERO,
               BlendColor 0 0 0 (1 / real k),
               DrawQuad (accumRenderTarget s') (Some (colorBuffer rt)) 1 gamma True,
               SetBlendFunctionSeparate (blendSrc (device s)) (blendDst (device s))
                 (blendSrcAlpha (device s)) (blendDstAlpha (device s))] @ post"
      unfolding hk using q by blast
  qed
  have B: "\<forall>rt. renderTarget (camera s) = Some rt \<and> sampleId s + 1 = k \<and> k = 1
          \<and> k \<le> length (samples s) \<longrightarrow>
      (\<exists>b s' pre. prepareTexture s = (Inr b, s')
         \<and> (\<forall>c \<in> set pre. is_allocation c)
         \<and> calls (device s') = calls (device s) @ pre @
              [DrawQuad (accumRenderTarget s') (Some (colorBuffer rt)) 1 gamma True,
               DrawQuad (firstRenderTarget s') (Some (colorBuffer rt)) 1 1 True,
               DrawQuad None (firstTexture s') 1 1 False])"
  proof (intro allI impI)
    fix rt
    assume h: "renderTarget (camera s) = Some rt \<and> sampleId s + 1 = k \<and> k = 1
          \<and> k \<le> length (samples s)"
    then have h1: "renderTarget (camera s) = Some rt" and h2: "sampleId s = 0"
      and h3: "0 < length (samples s)"
      by auto
    from first_step_calls[OF h2 h3]
    obtain s' pre where q: "prepareTexture s = (Inr (1 < length (samples s)), s')"
      "\<forall>c \<in> set pre. is_allocation c"
      "calls (device s') = calls (device s) @ pre @
          (case renderTarget (camera s) of
             None \<Rightarrow> []
           | Some rt \<Rightarrow>
               [DrawQuad (accumRenderTarget s') (Some (colorBuffer rt)) 1 gamma True,
                DrawQuad (firstRenderTarget s') (Some (colorBuffer rt)) 1 1 True])
          @ [DrawQuad None (firstTexture s') 1 1 False]"
      by blast
    from q(3) h1 have "calls (device s') = calls (device s) @ pre @
              [DrawQuad (accumRenderTarget s') (Some (colorBuffer rt)) 1 gamma True,
               DrawQuad (firstRenderTarget s') (Some (colorBuffer rt)) 1 1 True,
               DrawQuad None (firstTexture s') 1 1 False]"
      by simp
    with q(1,2) show "\<exists>b s' pre. prepareTexture s = (Inr b, s')
         \<and> (\<forall>c \<in> set pre. is_allocation c)
         \<and> calls (device s') = calls (device s) @ pre @
              [DrawQuad (accumRenderTarget s') (Some (colorBuffer rt)) 1 gamma True,
               DrawQuad (firstRenderTarget s') (Some (colorBuffer rt)) 1 1 True,
               DrawQuad None (firstTexture s') 1 1 False]"
      by blast
  qed
  have C: "1 \<le> k \<longrightarrow>
        blend_weight (k - 1) = 1 / real k
        \<and> 1 - blend_weight (k - 1) = real (k - 1) / real k
        \<and> acc sample k = (\<Sum>i = 1..k. sample i) / real k"
  proof
    assume k: "1 \<le> k"
    then obtain j where j: "k = Suc j" by (cases k) simp_all
    from blend_weight_step[OF k] acc_mean[of sample j] j
    show "blend_weight (k - 1) = 1 / real k
        \<and> 1 - blend_weight (k - 1) = real (k - 1) / real k
        \<and> acc sample k = (\<Sum>i = 1..k. sample i) / real k"
      by simp
  qed
  have D: "acc sample 1 = sample 1" by simp
  from A B C D show ?thesis by (intro conjI)
qed

theorem incremental_mean_blend_weight_witness:
  "renderTarget (camera (ex_after_steps 2 1)) = Some ex_scene_target
   \<and> sampleId (ex_after_steps 2 1) + 1 = 2
   \<and> (2::nat) \<le> length (samples (ex_after_steps 2 1))
   \<and> (\<exists>b s' pre post. prepareTexture (ex_after_steps 2 1) = (Inr b, s')
        \<and> calls (device s') = calls (device (ex_after_steps 2 1)) @ pre @
              [BlendFuncSeparate GL_CONSTANT_ALPHA GL_ONE_MINUS_CONSTANT_ALPHA GL_ONE GL_ZERO,
               BlendColor 0 0 0 (1 / 2),
               DrawQuad (accumRenderTarget s') (Some (colorBuffer ex_scene_target)) 1 gamma True,
               SetBlendFunctionSeparate 1 0 1 0] @ post)
   \<and> renderTarget (camera (ex_multiframe 2)) = Some ex_scene_target
   \<and> sampleId (ex_multiframe 2) + 1 = 1
   \<and> (1::nat) \<le> length (samples (ex_multiframe 2))
   \<and> (\<exists>b s' pre. prepareTexture (ex_multiframe 2) = (Inr b, s')
        \<and> calls (device s') = calls (device (ex_multiframe 2)) @ pre @
              [DrawQuad (accumRenderTarget s') (Some (colorBuffer ex_scene_target)) 1 gamma True,
               DrawQuad (firstRenderTarget s') (Some (colorBuffer ex_scene_target)) 1 1 True,
               DrawQuad None (firstTexture s') 1 1 False])
   \<and> blend_weight 1 = 1 / 2
   \<and> 1 - blend_weight 1 = 1 / 2
   \<and> acc (\<lambda>i. real i) 2 = 3 / 2"
proof -
  let ?S = "ex_after_steps 2 1"
  let ?F = "ex_multiframe 2"
  note h = ex_after_one_step
  have f: "renderTarget (camera ?F) = Some ex_scene_target" "sampleId ?F + 1 = 1"
    "(1::nat) \<le> length (samples ?F)"
    by (simp_all add: ex_multiframe_frame ex_camera_def)
  note t = incremental_mean_blend_weight[of ?S 2 "\<lambda>i. real i"]
  from t have "\<forall>rt. renderTarget (camera ?S) = Some rt \<and> sampleId ?S + 1 = 2 \<and> (2::nat) \<le> 2
          \<and> 2 \<le> length (samples ?S) \<longrightarrow>
      (\<exists>b s' pre post. prepareTexture ?S = (Inr b, s')
         \<and> (\<forall>c \<in> set pre. is_allocation c) \<and> (\<forall>c \<in> set post. is_draw c)
         \<and> calls (device s') = calls (device ?S) @ pre @
              [BlendFuncSeparate GL_CONSTANT_ALPHA GL_ONE_MINUS_CONSTANT_ALPHA GL_ONE GL_ZERO,
               BlendColor 0 0 0 (1 / real (2::nat)),
               DrawQuad (accumRenderTarget s') (Some (colorBuffer rt)) 1 gamma True,
               SetBlendFunctionSeparate (blendSrc (device ?S)) (blendDst (device ?S))
                 (blendSrcAlpha (device ?S)) (blendDstAlpha (device ?S))] @ post)"
    by (rule conjunct1)
  with h obtain b s' pre post where 1: "prepareTexture ?S = (Inr b, s')"
    "calls (device s') = calls (device ?S) @ pre @
              [BlendFuncSeparate GL_CONSTANT_ALPHA GL_ONE_MINUS_CONSTANT_ALPHA GL_ONE GL_ZERO,
               BlendColor 0 0 0 (1 / 2),
               DrawQuad (accumRenderTarget s') (Some (colorBuffer ex_scene_target)) 1 gamma True,
               SetBlendFunctionSeparate 1 0 1 0] @ post"
    by auto
  from t have "(1::nat) \<le> 2 \<longrightarrow>
        blend_weight (2 - 1) = 1 / real (2::nat)
        \<and> 1 - blend_weight (2 - 1) = real (2 - 1 :: nat) / real (2::nat)
        \<and> acc (\<lambda>i. real i) 2 = (\<Sum>i = 1..2. real i) / real (2::nat)"
    by blast
  then have 2: "blend_weight 1 = 1 / 2" "1 - blend_weight 1 = 1 / 2"
    "acc (\<lambda>i. real i) 2 = 3 / 2"
    by (simp_all add: numeral_2_eq_2)
  have 3: "\<exists>b s' pre post. prepareTexture ?S = (Inr b, s')
        \<and> calls (device s') = calls (device ?S) @ pre @
              [BlendFuncSeparate GL_CONSTANT_ALPHA GL_ONE_MINUS_CONSTANT_ALPHA GL_ONE GL_ZERO,
               BlendColor 0 0 0 (1 / 2),
               DrawQuad (accumRenderTarget s') (Some (colorBuffer ex_scene_target)) 1 gamma True,
               SetBlendFunctionSeparate 1 0 1 0] @ post"
    using 1 by blast
  have 4: "renderTarget (camera ?S) = Some ex_scene_target" "sampleId ?S + 1 = 2"
    "(2::nat) \<le> length (samples ?S)"
    using h by simp_all
  from incremental_mean_blend_weight[of ?F 1 "\<lambda>i. real i"]
  have "\<forall>rt. renderTarget (camera ?F) = Some rt \<and> sampleId ?F + 1 = 1 \<and> (1::nat) = 1
          \<and> 1 \<le> length (samples ?F) \<longrightarrow>
      (\<exists>b s' pre. prepareTexture ?F = (Inr b, s')
         \<and> (\<forall>c \<in> set pre. is_allocation c)
         \<and> calls (device s') = calls (device ?F) @ pre @
              [DrawQuad (accumRenderTarget s') (Some (colorBuffer rt)) 1 gamma True,
               DrawQuad (firstRenderTarget s') (Some (colorBuffer rt)) 1 1 True,
               DrawQuad None (firstTexture s') 1 1 False])"
    by (elim conjE)
  with f have 5: "\<exists>b s' pre. prepareTexture ?F = (Inr b, s')
        \<and> calls (device s') = calls (device ?F) @ pre @
              [DrawQuad (accumRenderTarget s') (Some (colorBuffer ex_scene_target)) 1 gamma True,
               DrawQuad (firstRenderTarget s') (Some (colorBuffer ex_scene_target)) 1 1 True,
               DrawQuad None (firstTexture s') 1 1 False]"
    by auto
  from 4 3 f 5 2 show ?thesis by (intro conjI)
qed

text \<open>
  C7. The single-sample sequence. When the grid size is 1, a step from the reset state
  (after \<open>moved\<close>) returns \<open>false\<close> and leaves the sample index at 1. Apart from
  allocating the textures where they are missing, it writes the scene colour with power
  2.2 into the accumulation target and with power 1.0 into the output target (both only
  when the camera has a scene render target), copies the output texture to the back
  buffer, and nothing else: none of its draws is the inverse-gamma resolve.
\<close>

theorem single_sample_fast_path:
  assumes "samples s = samples (new_Multiframe dev cam 1 rnd)"
  shows "\<exists>s0 s' pre. moved s = (Inr (), s0) \<and> sampleId s0 = 0
     \<and> prepareTexture s0 = (Inr False, s') \<and> sampleId s' = 1
     \<and> (\<forall>c \<in> set pre. is_allocation c)
     \<and> calls (device s') = calls (device s) @ pre @
          (case renderTarget (camera s) of
             None \<Rightarrow> []
           | Some rt \<Rightarrow>
               [DrawQuad (accumRenderTarget s') (Some (colorBuffer rt)) 1 gamma True,
                DrawQuad (firstRenderTarget s') (Some (colorBuffer rt)) 1 1 True])
          @ [DrawQuad None (firstTexture s') 1 1 False]
     \<and> (\<forall>c \<in> set (drop (length (calls (device s))) (calls (device s'))). \<not> is_resolve c)"
proof -
  let ?s0 = "s\<lparr>sampleId := 0\<rparr>"
  have len: "length (samples ?s0) = 1"
    using assms constructed_single_sample[of dev cam rnd] by simp
  have m: "moved s = (Inr (), ?s0)" by (simp add: moved_def mutate_def)
  have z: "sampleId ?s0 = 0" "0 < length (samples ?s0)" using len by simp_all
  from first_step_calls[OF z]
  obtain s' pre where q: "prepareTexture ?s0 = (Inr (1 < length (samples ?s0)), s')"
    "sampleId s' = 1" "\<forall>c \<in> set pre. is_allocation c"
    "calls (device s') = calls (device ?s0) @ pre @
          (case renderTarget (camera ?s0) of
             None \<Rightarrow> []
           | Some rt \<Rightarrow>
               [DrawQuad (accumRenderTarget s') (Some (colorBuffer rt)) 1 gamma True,
                DrawQuad (firstRenderTarget s') (Some (colorBuffer rt)) 1 1 True])
          @ [DrawQuad None (firstTexture s') 1 1 False]"
    by blast
  have 1: "prepareTexture ?s0 = (Inr False, s')" using q(1) len by simp
  have 2: "calls (device s') = calls (device s) @ pre @
          (case renderTarget (camera s) of
             None \<Rightarrow> []
           | Some rt \<Rightarrow>
               [DrawQuad (accumRenderTarget s') (Some (colorBuffer rt)) 1 gamma True,
                DrawQuad (firstRenderTarget s') (Some (colorBuffer rt)) 1 1 True])
          @ [DrawQuad None (firstTexture s') 1 1 False]"
    using q(4) by simp
  have 3: "\<forall>c \<in> set (drop (length (calls (device s))) (calls (device s'))). \<not> is_resolve c"
    unfolding 2 using q(3) allocation_is_no_draw gamma_not_resolve
    by (auto split: option.splits)
  show ?thesis
    by (rule exI[of _ ?s0], rule exI[of _ s'], rule exI[of _ pre])
       (intro conjI m z(1) 1 q(2) q(3) 2 3)
qed

theorem single_sample_fast_path_witness:
  "samples (ex_after_steps 1 1) = samples (new_Multiframe ex_device ex_camera 1 (\<lambda>k. 1 / 2))
   \<and> sampleId (ex_after_steps 1 1) = 1
   \<and> (\<exists>s0 s' pre. moved (ex_after_steps 1 1) = (Inr (), s0) \<and> sampleId s0 = 0
        \<and> prepareTexture s0 = (Inr False, s') \<and> sampleId s' = 1
        \<and> calls (device s') = calls (device (ex_after_steps 1 1)) @ pre @
            [DrawQuad (accumRenderTarget s') (Some (colorBuffer ex_scene_target)) 1 gamma True,
             DrawQuad (firstRenderTarget s') (Some (colorBuffer ex_scene_target)) 1 1 True,
             DrawQuad None (firstTexture s') 1 1 False])"
proof -
  let ?S = "ex_after_steps 1 1"
  have h: "samples ?S = samples (new_Multiframe ex_device ex_camera 1 (\<lambda>k. 1 / 2))"
    "sampleId ?S = 1" "renderTarget (camera ?S) = Some ex_scene_target"
    by (simp_all add: run_defs ex_defs)
  from single_sample_fast_path[OF h(1)]
  obtain s0 s' pre where q: "moved ?S = (Inr (), s0)" "sampleId s0 = 0"
    "prepareTexture s0 = (Inr False, s')" "sampleId s' = 1"
    "calls (device s') = calls (device ?S) @ pre @
          (case renderTarget (camera ?S) of
             None \<Rightarrow> []
           | Some rt \<Rightarrow>
               [DrawQuad (accumRenderTarget s') (Some (colorBuffer rt)) 1 gamma True,
                DrawQuad (firstRenderTarget s') (Some (colorBuffer rt)) 1 1 True])
          @ [DrawQuad None (firstTexture s') 1 1 False]"
    by blast
  from q(5) have "calls (device s') = calls (device ?S) @ pre @
            [DrawQuad (accumRenderTarget s') (Some (colorBuffer ex_scene_target)) 1 gamma True,
             DrawQuad (firstRenderTarget s') (Some (colorBuffer ex_scene_target)) 1 1 True,
             DrawQuad None (firstTexture s') 1 1 False]"
    unfolding h(3) by simp
  with q(1-4) have "\<exists>s0 s' pre. moved ?S = (Inr (), s0) \<and> sampleId s0 = 0
        \<and> prepareTexture s0 = (Inr False, s') \<and> sampleId s' = 1
        \<and> calls (device s') = calls (device ?S) @ pre @
            [DrawQuad (accumRenderTarget s') (Some (colorBuffer ex_scene_target)) 1 gamma True,
             DrawQuad (firstRenderTarget s') (Some (colorBuffer ex_scene_target)) 1 1 True,
             DrawQuad None (firstTexture s') 1 1 False]"
    by blast
  with h(1,2) show ?thesis by (intro conjI)
qed

end
